theory Spec2Isabelle
  imports Main "HOL-Library.Word" "HOL-Library.Sublist"
begin

text \<open>
  A shallow embedding of the authentication core of the Google API demo: the PKCE helpers,
  the pending-session store and the token exchange of the web backend
  (backend/server.js) and of the mobile backend, the mobile backend's token refresh and
  its resolution of the access token, the normalization of picker media, the retrying
  fetch of the selected photos and the timers of the photo-picker flow. Handlers are
  functions from the request, the store and the provider's answer to the response, the
  calls made to the provider and the new store.
\<close>

section \<open>JavaScript values and string helpers\<close>

text \<open>
  Request fields, JSON fields and environment values that may be \<^verbatim>\<open>undefined\<close> are
  \<open>string option\<close>. JavaScript truthiness of such a value: \<^verbatim>\<open>undefined\<close> and the empty
  string are falsy, every other string is truthy.
\<close>

definition truthy :: "string option \<Rightarrow> bool" where
  "truthy v = (case v of None \<Rightarrow> False | Some s \<Rightarrow> s \<noteq> [])"

text \<open>\<^verbatim>\<open>a || b\<close> where \<^verbatim>\<open>a\<close> may be undefined and \<^verbatim>\<open>b\<close> is a string.\<close>

definition js_or :: "string option \<Rightarrow> string \<Rightarrow> string" where
  "js_or a b = (case a of None \<Rightarrow> b | Some s \<Rightarrow> if s = [] then b else s)"

text \<open>
  \<^verbatim>\<open>s.replace(/x/g, r)\<close> for a pattern that is one literal character: every occurrence of
  the character is replaced by the string \<open>r\<close>, left to right.
\<close>

fun replace_all :: "char \<Rightarrow> string \<Rightarrow> string \<Rightarrow> string" where
  "replace_all x r [] = []"
| "replace_all x r (c # cs) = (if c = x then r @ replace_all x r cs else c # replace_all x r cs)"

text \<open>\<^verbatim>\<open>s.split(d)\<close> for a one-character separator: never empty, \<^verbatim>\<open>"".split(" ")\<close> is \<^verbatim>\<open>[""]\<close>.\<close>

fun split_on :: "char \<Rightarrow> string \<Rightarrow> string list" where
  "split_on d [] = [[]]"
| "split_on d (c # cs) =
     (if c = d then [] # split_on d cs
      else (case split_on d cs of
              [] \<Rightarrow> [[c]]
            | w # ws \<Rightarrow> (c # w) # ws))"

text \<open>\<^verbatim>\<open>xs[i]\<close> on a JavaScript array: \<^verbatim>\<open>undefined\<close> out of range.\<close>

definition js_index :: "'a list \<Rightarrow> nat \<Rightarrow> 'a option" where
  "js_index xs i = (if i < length xs then Some (xs ! i) else None)"

text \<open>A value inside a template literal: \<^verbatim>\<open>undefined\<close> prints as the word.\<close>

definition template :: "string option \<Rightarrow> string" where
  "template v = (case v of None \<Rightarrow> ''undefined'' | Some s \<Rightarrow> s)"

text \<open>\<^verbatim>\<open>hay.includes(needle)\<close>.\<close>

fun str_includes :: "string \<Rightarrow> string \<Rightarrow> bool" where
  "str_includes [] needle = (needle = [])"
| "str_includes (c # cs) needle = (prefix needle (c # cs) \<or> str_includes cs needle)"

section \<open>PKCE utility functions (backend/server.js, mobile backend, service layer)\<close>

type_synonym byte = "8 word"

text \<open>
  \<^verbatim>\<open>buffer.toString("base64")\<close> is the runtime's encoder, not code of the repository; it
  is written out here after RFC 4648: three bytes give four characters of the alphabet, a
  final group of one or two bytes is padded with \<^verbatim>\<open>=\<close>. The same function with the
  URL-safe alphabet and no padding is the reference encoding of RFC 4648 section 5.
\<close>

definition b64_alphabet :: string where
  "b64_alphabet = ''ABCDEFGHIJKLMNOPQRSTUVWXYZabcdefghijklmnopqrstuvwxyz0123456789+/''"

definition b64url_alphabet :: string where
  "b64url_alphabet = ''ABCDEFGHIJKLMNOPQRSTUVWXYZabcdefghijklmnopqrstuvwxyz0123456789-_''"

fun b64_encode :: "string \<Rightarrow> string \<Rightarrow> byte list \<Rightarrow> string" where
  "b64_encode alphabet pad [] = []"
| "b64_encode alphabet pad [a] =
     [alphabet ! (unat a div 4), alphabet ! (unat a mod 4 * 16)] @ pad @ pad"
| "b64_encode alphabet pad [a, b] =
     [alphabet ! (unat a div 4), alphabet ! (unat a mod 4 * 16 + unat b div 16),
      alphabet ! (unat b mod 16 * 4)] @ pad"
| "b64_encode alphabet pad (a # b # c # rest) =
     [alphabet ! (unat a div 4), alphabet ! (unat a mod 4 * 16 + unat b div 16),
      alphabet ! (unat b mod 16 * 4 + unat c div 64), alphabet ! (unat c mod 64)]
     @ b64_encode alphabet pad rest"

definition toString_base64 :: "byte list \<Rightarrow> string" where
  "toString_base64 buffer = b64_encode b64_alphabet ''='' buffer"

text \<open>
  \<^verbatim>\<open>function base64urlencode(buffer) {
    return buffer.toString("base64").replace(/\+/g, "-").replace(/\//g, "_").replace(/=/g, ""); }\<close>
\<close>

definition base64urlencode :: "byte list \<Rightarrow> string" where
  "base64urlencode buffer =
     replace_all (CHR ''='') []
       (replace_all (CHR ''/'') ''_''
          (replace_all (CHR ''+'') ''-'' (toString_base64 buffer)))"


text \<open>
  \<^verbatim>\<open>function generateCodeChallenge(verifier) {
    return base64urlencode(crypto.createHash("sha256").update(verifier).digest()); }\<close>
  The hash is the runtime's: \<open>sha256 v\<close> stands for the 32-byte SHA-256 digest of the
  UTF-8 bytes of \<open>v\<close> and is a parameter.
\<close>

definition generateCodeChallenge :: "(string \<Rightarrow> byte list) \<Rightarrow> string \<Rightarrow> string" where
  "generateCodeChallenge sha256 verifier = base64urlencode (sha256 verifier)"

text \<open>
  The service layer (app/(tabs)/index.tsx) asks the digest in base64 from the crypto module
  and applies the same three replacements itself:
  \<^verbatim>\<open>const digest = await Crypto.digestStringAsync(SHA256, verifier, { encoding: BASE64 });
  return digest.replace(/\+/g, "-").replace(/\//g, "_").replace(/=/g, "");\<close>
\<close>

definition digestStringAsync_base64 :: "(string \<Rightarrow> byte list) \<Rightarrow> string \<Rightarrow> string" where
  "digestStringAsync_base64 sha256 verifier = toString_base64 (sha256 verifier)"

definition service_generateCodeChallenge :: "(string \<Rightarrow> byte list) \<Rightarrow> string \<Rightarrow> string" where
  "service_generateCodeChallenge sha256 verifier =
     (let digest = digestStringAsync_base64 sha256 verifier
      in replace_all (CHR ''='') []
           (replace_all (CHR ''/'') ''_'' (replace_all (CHR ''+'') ''-'' digest)))"

text \<open>
  The reference derivation of the specification: the base64url encoding (URL-safe
  alphabet, no padding) of the SHA-256 digest of the verifier.
\<close>

definition deriveChallenge_reference :: "(string \<Rightarrow> byte list) \<Rightarrow> string \<Rightarrow> string" where
  "deriveChallenge_reference sha256 verifier = b64_encode b64url_alphabet [] (sha256 verifier)"

section \<open>The two backends: shared data\<close>

text \<open>
  \<^verbatim>\<open>process.env\<close>: the web backend (backend/server.js) reads \<^verbatim>\<open>GOOGLE_CLIENT_ID\<close> and
  \<^verbatim>\<open>GOOGLE_CLIENT_SECRET\<close>, the mobile backend reads the \<^verbatim>\<open>REACT_APP_..._WEB\<close> pair; both
  read \<^verbatim>\<open>REDIRECT_URI\<close>.
\<close>

record process_env =
  GOOGLE_CLIENT_ID :: string
  GOOGLE_CLIENT_SECRET :: string
  REACT_APP_GOOGLE_CLIENT_ID_WEB :: string
  REACT_APP_GOOGLE_CLIENT_SECRET_WEB :: string
  REDIRECT_URI :: string

text \<open>The body of \<^verbatim>\<open>POST /api/oauth/token\<close>: \<^verbatim>\<open>const { code, state, userId } = req.body\<close>.\<close>

record token_request =
  req_code :: "string option"
  req_state :: "string option"
  req_userId :: "string option"

text \<open>The form posted to the provider's token endpoint for a code exchange.\<close>

record token_post =
  post_client_id :: string
  post_client_secret :: string
  post_code :: string
  post_grant_type :: string
  post_redirect_uri :: string
  post_code_verifier :: string

text \<open>The form posted to the provider's token endpoint for a refresh.\<close>

record refresh_post =
  rpost_client_id :: string
  rpost_client_secret :: string
  rpost_refresh_token :: string
  rpost_grant_type :: string

text \<open>\<^verbatim>\<open>tokenResponse.data\<close> of a successful call.\<close>

record token_data =
  data_access_token :: string
  data_refresh_token :: "string option"
  data_expires_in :: int
  data_scope :: string

text \<open>
  The error \<^verbatim>\<open>axios\<close> throws: its \<^verbatim>\<open>message\<close> and, when the provider answered, the
  \<^verbatim>\<open>error\<close> and \<^verbatim>\<open>error_description\<close> fields of \<^verbatim>\<open>error.response.data\<close>.
\<close>

record provider_error =
  pe_error :: "string option"
  pe_error_description :: "string option"

record axios_error =
  err_message :: string
  err_response_data :: "provider_error option"

text \<open>\<^verbatim>\<open>error.response?.data?.error_description\<close>.\<close>

definition response_error_description :: "axios_error \<Rightarrow> string option" where
  "response_error_description e =
     (case err_response_data e of None \<Rightarrow> None | Some d \<Rightarrow> pe_error_description d)"

text \<open>Every request a handler sends to the provider, in the order sent.\<close>

datatype upstream_call =
    TokenEndpointPost token_post
  | TokenEndpointRefresh refresh_post

text \<open>What a handler answers: \<^verbatim>\<open>res.status(n).json({...})\<close>, status 200 when not set.\<close>

datatype http_response =
    ErrorJson nat string
  | ErrorDetailsJson nat string string
  | UrlJson string string string
  | TokenJson string "string option" int string "string option"
  | RefreshJson string int

fun status :: "http_response \<Rightarrow> nat" where
  "status (ErrorJson n e) = n"
| "status (ErrorDetailsJson n e d) = n"
| "status (UrlJson u s m) = 200"
| "status (TokenJson a r e s u) = 200"
| "status (RefreshJson a e) = 200"




section \<open>The web backend (backend/server.js)\<close>

text \<open>\<^verbatim>\<open>const activeSessions = new Map()\<close>; a value is \<^verbatim>\<open>{ codeVerifier, timestamp }\<close>.\<close>

record session =
  codeVerifier :: string
  timestamp :: int

record backend_state =
  activeSessions :: "string \<rightharpoonup> session"


text \<open>
  \<^verbatim>\<open>app.post("/api/oauth/token", ...)\<close>. The provider's answer to the POST is the parameter
  \<open>axios_post\<close>: \<open>Inr\<close> the response data, \<open>Inl\<close> the error thrown, which the handler's
  \<^verbatim>\<open>catch\<close> turns into the 500 answer. The handler returns its answer, the calls it made
  to the provider and the new state. The session is deleted only after the POST has
  returned without throwing.
\<close>

definition oauth_token ::
  "process_env \<Rightarrow> (token_post \<Rightarrow> axios_error + token_data) \<Rightarrow> token_request \<Rightarrow> backend_state
   \<Rightarrow> http_response \<times> upstream_call list \<times> backend_state" where
  "oauth_token env axios_post req st =
     (if \<not> truthy (req_code req) \<or> \<not> truthy (req_state req)
      then (ErrorJson 400 ''Missing code or state parameter'', [], st)
      else
        let code = the (req_code req); state = the (req_state req) in
        (case activeSessions st state of
           None \<Rightarrow> (ErrorJson 400 ''Invalid or expired session'', [], st)
         | Some session \<Rightarrow>
             let form = \<lparr>post_client_id = GOOGLE_CLIENT_ID env,
                         post_client_secret = GOOGLE_CLIENT_SECRET env,
                         post_code = code,
                         post_grant_type = ''authorization_code'',
                         post_redirect_uri = REDIRECT_URI env,
                         post_code_verifier = codeVerifier session\<rparr>
             in (case axios_post form of
                   Inl error \<Rightarrow>
                     (ErrorDetailsJson 500 ''Token exchange failed''
                        (js_or (response_error_description error) (err_message error)),
                      [TokenEndpointPost form], st)
                 | Inr data \<Rightarrow>
                     (TokenJson (data_access_token data) (data_refresh_token data)
                        (data_expires_in data) (data_scope data) None,
                      [TokenEndpointPost form],
                      st\<lparr>activeSessions := (activeSessions st)(state := None)\<rparr>))))"

section \<open>The mobile backend\<close>

text \<open>
  A session also records the user agent; \<^verbatim>\<open>const userTokens = new Map()\<close> holds
  \<^verbatim>\<open>{ access_token, refresh_token, expires_at, user_id }\<close> by user id.
\<close>

record mobile_session = session +
  userAgent :: string

record user_token =
  access_token :: string
  refresh_token :: "string option"
  expires_at :: int
  user_id :: string

record mobile_state =
  mobile_activeSessions :: "string \<rightharpoonup> mobile_session"
  userTokens :: "string \<rightharpoonup> user_token"


text \<open>
  What \<^verbatim>\<open>POST /api/oauth/token\<close> of the mobile backend takes from the runtime:
  \<^verbatim>\<open>Date.now()\<close> at the expiry check, \<^verbatim>\<open>Date.now()\<close> when the token is stored (after the
  provider has answered) and the UUID used when the request names no user.
\<close>

record token_inputs =
  now_at_check :: int
  now_at_store :: int
  tok_randomUUID :: string

definition mobile_oauth_token ::
  "process_env \<Rightarrow> (token_post \<Rightarrow> axios_error + token_data) \<Rightarrow> token_inputs \<Rightarrow> token_request
   \<Rightarrow> mobile_state \<Rightarrow> http_response \<times> upstream_call list \<times> mobile_state" where
  "mobile_oauth_token env axios_post inp req st =
     (if \<not> truthy (req_code req) \<or> \<not> truthy (req_state req)
      then (ErrorJson 400 ''Missing code or state parameter'', [], st)
      else
        let code = the (req_code req); state = the (req_state req) in
        (case mobile_activeSessions st state of
           None \<Rightarrow> (ErrorJson 400 ''Invalid or expired session'', [], st)
         | Some session \<Rightarrow>
             if now_at_check inp - timestamp session > 600000
             then (ErrorJson 400 ''Session expired'', [],
                   st\<lparr>mobile_activeSessions := (mobile_activeSessions st)(state := None)\<rparr>)
             else
               let form = \<lparr>post_client_id = REACT_APP_GOOGLE_CLIENT_ID_WEB env,
                           post_client_secret = REACT_APP_GOOGLE_CLIENT_SECRET_WEB env,
                           post_code = code,
                           post_grant_type = ''authorization_code'',
                           post_redirect_uri = REDIRECT_URI env,
                           post_code_verifier = codeVerifier session\<rparr>
               in (case axios_post form of
                     Inl error \<Rightarrow>
                       (ErrorDetailsJson 500 ''Token exchange failed''
                          (js_or (response_error_description error) (err_message error)),
                        [TokenEndpointPost form], st)
                   | Inr data \<Rightarrow>
                       let userTokenId = js_or (req_userId req) (tok_randomUUID inp) in
                       (TokenJson (data_access_token data) (data_refresh_token data)
                          (data_expires_in data) (data_scope data) (Some userTokenId),
                        [TokenEndpointPost form],
                        st\<lparr>mobile_activeSessions := (mobile_activeSessions st)(state := None),
                           userTokens := (userTokens st)
                             (userTokenId \<mapsto>
                                \<lparr>access_token = data_access_token data,
                                 refresh_token = data_refresh_token data,
                                 expires_at = now_at_store inp + data_expires_in data * 1000,
                                 user_id = userTokenId\<rparr>)\<rparr>))))"

text \<open>
  \<^verbatim>\<open>app.post("/api/oauth/refresh", ...)\<close>:
  \<^verbatim>\<open>const { refresh_token, user_id } = req.body\<close>; the stored record is updated in place
  when \<^verbatim>\<open>user_id\<close> is given and known.
\<close>

record refresh_request =
  req_refresh_token :: "string option"
  req_user_id :: "string option"

record refresh_data =
  rdata_access_token :: string
  rdata_expires_in :: int

definition oauth_refresh ::
  "process_env \<Rightarrow> (refresh_post \<Rightarrow> axios_error + refresh_data) \<Rightarrow> int \<Rightarrow> refresh_request
   \<Rightarrow> mobile_state \<Rightarrow> http_response \<times> upstream_call list \<times> mobile_state" where
  "oauth_refresh env axios_post now req st =
     (if \<not> truthy (req_refresh_token req)
      then (ErrorJson 400 ''Refresh token is required'', [], st)
      else
        let form = \<lparr>rpost_client_id = REACT_APP_GOOGLE_CLIENT_ID_WEB env,
                    rpost_client_secret = REACT_APP_GOOGLE_CLIENT_SECRET_WEB env,
                    rpost_refresh_token = the (req_refresh_token req),
                    rpost_grant_type = ''refresh_token''\<rparr>
        in (case axios_post form of
              Inl error \<Rightarrow>
                (ErrorDetailsJson 500 ''Token refresh failed''
                   (js_or (response_error_description error) (err_message error)),
                 [TokenEndpointRefresh form], st)
            | Inr data \<Rightarrow>
                let st' =
                  (if truthy (req_user_id req)
                   then (case userTokens st (the (req_user_id req)) of
                           None \<Rightarrow> st
                         | Some userToken \<Rightarrow>
                             st\<lparr>userTokens := (userTokens st)
                                  (the (req_user_id req) \<mapsto>
                                     userToken\<lparr>access_token := rdata_access_token data,
                                               expires_at := now + rdata_expires_in data * 1000\<rparr>)\<rparr>)
                   else st)
                in (RefreshJson (rdata_access_token data) (rdata_expires_in data),
                    [TokenEndpointRefresh form], st')))"

section \<open>The code exchange split at its await\<close>

text \<open>
  \<^verbatim>\<open>POST /api/oauth/token\<close> is an \<^verbatim>\<open>async\<close> handler: it runs up to
  \<^verbatim>\<open>await axios.post(...)\<close>, is suspended while the provider works, and goes on when the
  provider has answered. Other requests are served in between. The first part either
  answers at once or sends the form and waits, keeping \<^verbatim>\<open>state\<close> (and, in the mobile
  backend, \<^verbatim>\<open>userId\<close>) for the second part.
\<close>

datatype exchange_start =
    Responds http_response
  | Awaits token_post string "string option"

text \<open>backend/server.js, lines 76 to 89, and lines 108 to 123.\<close>

definition oauth_token_begin :: "process_env \<Rightarrow> token_request \<Rightarrow> backend_state \<Rightarrow> exchange_start" where
  "oauth_token_begin env req st =
     (if \<not> truthy (req_code req) \<or> \<not> truthy (req_state req)
      then Responds (ErrorJson 400 ''Missing code or state parameter'')
      else
        let code = the (req_code req); state = the (req_state req) in
        (case activeSessions st state of
           None \<Rightarrow> Responds (ErrorJson 400 ''Invalid or expired session'')
         | Some session \<Rightarrow>
             Awaits \<lparr>post_client_id = GOOGLE_CLIENT_ID env,
                     post_client_secret = GOOGLE_CLIENT_SECRET env,
                     post_code = code,
                     post_grant_type = ''authorization_code'',
                     post_redirect_uri = REDIRECT_URI env,
                     post_code_verifier = codeVerifier session\<rparr> state None))"

definition oauth_token_resume ::
  "axios_error + token_data \<Rightarrow> string \<Rightarrow> backend_state \<Rightarrow> http_response \<times> backend_state" where
  "oauth_token_resume answer state st =
     (case answer of
        Inl error \<Rightarrow>
          (ErrorDetailsJson 500 ''Token exchange failed''
             (js_or (response_error_description error) (err_message error)), st)
      | Inr data \<Rightarrow>
          (TokenJson (data_access_token data) (data_refresh_token data)
             (data_expires_in data) (data_scope data) None,
           st\<lparr>activeSessions := (activeSessions st)(state := None)\<rparr>))"

text \<open>The mobile backend, lines 135 to 153, and lines 173 to 198.\<close>

definition mobile_oauth_token_begin ::
  "process_env \<Rightarrow> int \<Rightarrow> token_request \<Rightarrow> mobile_state \<Rightarrow> exchange_start \<times> mobile_state" where
  "mobile_oauth_token_begin env now req st =
     (if \<not> truthy (req_code req) \<or> \<not> truthy (req_state req)
      then (Responds (ErrorJson 400 ''Missing code or state parameter''), st)
      else
        let code = the (req_code req); state = the (req_state req) in
        (case mobile_activeSessions st state of
           None \<Rightarrow> (Responds (ErrorJson 400 ''Invalid or expired session''), st)
         | Some session \<Rightarrow>
             if now - timestamp session > 600000
             then (Responds (ErrorJson 400 ''Session expired''),
                   st\<lparr>mobile_activeSessions := (mobile_activeSessions st)(state := None)\<rparr>)
             else (Awaits \<lparr>post_client_id = REACT_APP_GOOGLE_CLIENT_ID_WEB env,
                           post_client_secret = REACT_APP_GOOGLE_CLIENT_SECRET_WEB env,
                           post_code = code,
                           post_grant_type = ''authorization_code'',
                           post_redirect_uri = REDIRECT_URI env,
                           post_code_verifier = codeVerifier session\<rparr> state (req_userId req),
                   st)))"

definition mobile_oauth_token_resume ::
  "axios_error + token_data \<Rightarrow> int \<Rightarrow> string \<Rightarrow> string \<Rightarrow> string option \<Rightarrow> mobile_state
   \<Rightarrow> http_response \<times> mobile_state" where
  "mobile_oauth_token_resume answer now uuid state userId st =
     (case answer of
        Inl error \<Rightarrow>
          (ErrorDetailsJson 500 ''Token exchange failed''
             (js_or (response_error_description error) (err_message error)), st)
      | Inr data \<Rightarrow>
          let userTokenId = js_or userId uuid in
          (TokenJson (data_access_token data) (data_refresh_token data)
             (data_expires_in data) (data_scope data) (Some userTokenId),
           st\<lparr>mobile_activeSessions := (mobile_activeSessions st)(state := None),
              userTokens := (userTokens st)
                (userTokenId \<mapsto>
                   \<lparr>access_token = data_access_token data,
                    refresh_token = data_refresh_token data,
                    expires_at = now + data_expires_in data * 1000,
                    user_id = userTokenId\<rparr>)\<rparr>))"

section \<open>Sequences of requests, overlapping\<close>













section \<open>The mobile backend's authenticated endpoints\<close>

text \<open>
  The seven handlers that call the provider on the user's behalf. Each takes
  \<^verbatim>\<open>user_id\<close> from the query (from the body for \<^verbatim>\<open>POST /api/photos/picker/session\<close>) and
  the \<^verbatim>\<open>Authorization\<close> header.
\<close>

datatype endpoint =
    UserProfile
  | DriveFiles
  | CalendarEvents
  | DrivePhotos
  | PickerSession
  | PickerMedia
  | PickerUrl

record api_request =
  authorization :: "string option"
  param_user_id :: "string option"
  param_date :: "string option"
  param_sessionId :: "string option"

text \<open>
  The block every one of the seven handlers contains, word for word:
  \<^verbatim>\<open>let accessToken;
  if (authHeader && authHeader.startsWith("Bearer ")) {
    accessToken = authHeader.split(" ")[1];
  } else if (user_id) {
    const userToken = userTokens.get(user_id);
    if (!userToken || Date.now() > userToken.expires_at) {
      return res.status(401).json({ error: "Token expired or invalid" });
    }
    accessToken = userToken.access_token;
  } else {
    return res.status(401).json({ error: "Missing authorization" });
  }\<close>
  \<open>Inl\<close> is the early return, \<open>Inr\<close> the value of \<^verbatim>\<open>accessToken\<close>.
\<close>

definition resolve_access_token ::
  "string option \<Rightarrow> string option \<Rightarrow> (string \<rightharpoonup> user_token) \<Rightarrow> int
   \<Rightarrow> http_response + string option" where
  "resolve_access_token authHeader uid tokens now =
     (if truthy authHeader \<and> prefix ''Bearer '' (the authHeader)
      then Inr (js_index (split_on (CHR '' '') (the authHeader)) 1)
      else if truthy uid
      then (case tokens (the uid) of
              None \<Rightarrow> Inl (ErrorJson 401 ''Token expired or invalid'')
            | Some userToken \<Rightarrow>
                if now > expires_at userToken
                then Inl (ErrorJson 401 ''Token expired or invalid'')
                else Inr (Some (access_token userToken)))
      else Inl (ErrorJson 401 ''Missing authorization''))"

text \<open>
  The check two handlers make before the block: the calendar handler wants \<^verbatim>\<open>date\<close>, the
  picker-media handler wants \<^verbatim>\<open>sessionId\<close>.
\<close>

fun required_parameter :: "endpoint \<Rightarrow> api_request \<Rightarrow> http_response option" where
  "required_parameter CalendarEvents req =
     (if \<not> truthy (param_date req) then Some (ErrorJson 400 ''Date parameter is required'')
      else None)"
| "required_parameter PickerMedia req =
     (if \<not> truthy (param_sessionId req) then Some (ErrorJson 400 ''Session ID is required'')
      else None)"
| "required_parameter ep req = None"

text \<open>
  A handler up to its call to the provider: either it has answered already, or it calls the
  provider's API for the endpoint with the header \<^verbatim>\<open>Authorization: `Bearer ${accessToken}`\<close>.
\<close>

datatype authenticated =
    Answered http_response
  | CallsProvider endpoint string

definition authenticate ::
  "endpoint \<Rightarrow> api_request \<Rightarrow> (string \<rightharpoonup> user_token) \<Rightarrow> int \<Rightarrow> authenticated" where
  "authenticate ep req tokens now =
     (case required_parameter ep req of
        Some r \<Rightarrow> Answered r
      | None \<Rightarrow>
          (case resolve_access_token (authorization req) (param_user_id req) tokens now of
             Inl r \<Rightarrow> Answered r
           | Inr accessToken \<Rightarrow> CallsProvider ep (''Bearer '' @ template accessToken)))"

section \<open>Picker media: normalization and the retrying fetch\<close>

text \<open>A media item as the provider's \<^verbatim>\<open>mediaItems\<close> listing returns it.\<close>

record media_file =
  baseUrl :: "string option"
  filename :: "string option"
  file_mimeType :: "string option"

record media_file_metadata =
  meta_width :: "int option"
  meta_height :: "int option"

record media_item =
  item_id :: "string option"
  mediaFile :: "media_file option"
  createTime :: "string option"
  mediaFileMetadata :: "media_file_metadata option"

text \<open>The normalized photo both backends and the service layer build.\<close>

record photo_item =
  photo_id :: "string option"
  name :: string
  url :: string
  thumbnails :: "string list"
  mimeType :: "string option"
  creationTime :: "string option"
  width :: "int option"
  height :: "int option"

text \<open>\<^verbatim>\<open>item.mediaFile?.baseUrl\<close> and its siblings.\<close>

definition item_baseUrl :: "media_item \<Rightarrow> string option" where
  "item_baseUrl item = (case mediaFile item of None \<Rightarrow> None | Some f \<Rightarrow> baseUrl f)"

definition item_filename :: "media_item \<Rightarrow> string option" where
  "item_filename item = (case mediaFile item of None \<Rightarrow> None | Some f \<Rightarrow> filename f)"

definition item_mimeType :: "media_item \<Rightarrow> string option" where
  "item_mimeType item = (case mediaFile item of None \<Rightarrow> None | Some f \<Rightarrow> file_mimeType f)"

definition item_width :: "media_item \<Rightarrow> int option" where
  "item_width item = (case mediaFileMetadata item of None \<Rightarrow> None | Some m \<Rightarrow> meta_width m)"

definition item_height :: "media_item \<Rightarrow> int option" where
  "item_height item = (case mediaFileMetadata item of None \<Rightarrow> None | Some m \<Rightarrow> meta_height m)"

text \<open>
  The object pushed for an item whose \<^verbatim>\<open>baseUrl\<close> passed the test:
  \<^verbatim>\<open>{ id: item.id, name: item.mediaFile?.filename || `Photo ${item.id}`, url: baseUrl,
    thumbnails: [{ url: baseUrl + "=w200-h200" }], mimeType: item.mediaFile?.mimeType,
    creationTime: item.createTime, width: ..., height: ... }\<close>
\<close>

definition photo_of :: "media_item \<Rightarrow> string \<Rightarrow> photo_item" where
  "photo_of item base =
     (let thumbnailUrl = base @ ''=w200-h200''
      in \<lparr>photo_id = item_id item,
          name = js_or (item_filename item) (''Photo '' @ template (item_id item)),
          url = base,
          thumbnails = [thumbnailUrl],
          mimeType = item_mimeType item,
          creationTime = createTime item,
          width = item_width item,
          height = item_height item\<rparr>)"

text \<open>
  The loop \<^verbatim>\<open>for (const item of data.mediaItems || []) { ... if (baseUrl) photos.push(...) }\<close>,
  with the array \<^verbatim>\<open>photos\<close> built so far as accumulator.
\<close>

fun push_photos :: "media_item list \<Rightarrow> photo_item list \<Rightarrow> photo_item list" where
  "push_photos [] photos = photos"
| "push_photos (item # items) photos =
     (let base = item_baseUrl item
      in if truthy base
         then push_photos items (photos @ [photo_of item (the base)])
         else push_photos items photos)"

definition transform_media_items :: "media_item list option \<Rightarrow> photo_item list" where
  "transform_media_items mediaItems =
     push_photos (case mediaItems of None \<Rightarrow> [] | Some items \<Rightarrow> items) []"

text \<open>
  \<^verbatim>\<open>fetchSelectedPhotos(sessionId, retryCount = 0)\<close> of the service layer. What the HTTP
  request gives back is a parameter: \<open>fetch k sessionId token\<close> is the outcome of the
  \<open>k\<close>-th request of the run (counted from 0).
\<close>

datatype fetch_result =
    FetchOk "media_item list option"
  | FetchNotOk nat "string option" "string option"
  | FetchThrows string

text \<open>
  The errors the method throws: no token; \<^verbatim>\<open>Photo Picker API error: <status> - <message>\<close>;
  an exception of \<^verbatim>\<open>fetch\<close> itself, rethrown.
\<close>

datatype service_error =
    NoAccessToken
  | PhotoPickerApiError nat string
  | Rethrown string

text \<open>What a run did: the number of requests sent and the delays slept, in order.\<close>

record picker_log =
  requests :: nat
  delays :: "int list"

function fetchSelectedPhotos ::
  "(nat \<Rightarrow> string \<Rightarrow> string \<Rightarrow> fetch_result) \<Rightarrow> string option \<Rightarrow> string \<Rightarrow> int \<Rightarrow> picker_log
   \<Rightarrow> (service_error + photo_item list) \<times> picker_log" where
  "fetchSelectedPhotos fetch accessToken sessionId retryCount lg =
     (if \<not> truthy accessToken then (Inl NoAccessToken, lg)
      else
        let response = fetch (requests lg) sessionId (the accessToken);
            lg' = lg\<lparr>requests := requests lg + 1\<rparr>
        in (case response of
              FetchThrows message \<Rightarrow> (Inl (Rethrown message), lg')
            | FetchNotOk code error_status error_message \<Rightarrow>
                if error_status = Some ''FAILED_PRECONDITION'' \<and> retryCount < 3
                then
                  let delay = (retryCount + 1) * 2000
                  in fetchSelectedPhotos fetch accessToken sessionId (retryCount + 1)
                       (lg'\<lparr>delays := delays lg' @ [delay]\<rparr>)
                else (Inl (PhotoPickerApiError code (js_or error_message ''Unknown error'')), lg')
            | FetchOk mediaItems \<Rightarrow> (Inr (transform_media_items mediaItems), lg')))"
  by pat_completeness auto
termination
  by (relation "measure (\<lambda>(fetch, accessToken, sessionId, retryCount, lg). nat (3 - retryCount))")
    auto

declare fetchSelectedPhotos.simps [simp del]

section \<open>The photo-picker selection flow: the poll and the 30-second timer\<close>

text \<open>
  \<^verbatim>\<open>openPhotoPicker\<close> opens the picker window and arms two timers: an interval that looks
  every 1000 ms whether the window is closed, and a timeout of 30000 ms. When a tick of
  the interval finds the window closed it clears the interval and arms a third timer: the
  media items are fetched 3000 ms later. Time is counted in ms from the moment the timers
  are armed; the moment from which \<^verbatim>\<open>pickerWindow.closed\<close> is true is an input (\<open>None\<close>:
  the window stays open).

  The event loop is the runtime's. It holds the armed timers with their due times, in the
  order in which they were armed; any number of timers of one kind may be armed. It fires
  the timer due first, and of several due at the same time the one armed first. An
  interval is armed again, 1000 ms later, when its callback has run, unless it has been
  cleared; clearing it also removes its armed tick.
\<close>

datatype timer = HardTimeout | CheckPickerStatus | FollowUp | FetchSettles

text \<open>Which callback fetched the media items.\<close>

datatype fetcher = ByFollowUp | ByHardTimeout

text \<open>How the promise of the service layer's \<^verbatim>\<open>openPhotoPicker\<close> settled.\<close>

datatype settlement = Resolved "photo_item list" | RejectedWith service_error | RejectedTimeout

record picker_flow =
  timers :: "(nat \<times> timer) list"
  interval_live :: bool
  fetched :: "(nat \<times> fetcher) list"
  promise :: "settlement option"

text \<open>
  \<^verbatim>\<open>setInterval(..., 1000)\<close> comes first in both files, \<^verbatim>\<open>setTimeout(..., 30000)\<close> second.
\<close>

definition picker_start :: picker_flow where
  "picker_start = \<lparr>timers = [(1000, CheckPickerStatus), (30000, HardTimeout)],
                    interval_live = True, fetched = [], promise = None\<rparr>"

definition setTimeout :: "timer \<Rightarrow> nat \<Rightarrow> picker_flow \<Rightarrow> picker_flow" where
  "setTimeout tm due s = s\<lparr>timers := timers s @ [(due, tm)]\<rparr>"

definition clearInterval :: "picker_flow \<Rightarrow> picker_flow" where
  "clearInterval s =
     s\<lparr>interval_live := False,
       timers := filter (\<lambda>x. snd x \<noteq> CheckPickerStatus) (timers s)\<rparr>"

fun earliest :: "(nat \<times> timer) list \<Rightarrow> (nat \<times> timer) option" where
  "earliest [] = None"
| "earliest (x # xs) =
     (case earliest xs of
        None \<Rightarrow> Some x
      | Some y \<Rightarrow> if fst y < fst x then Some y else Some x)"

definition rearm :: "nat \<Rightarrow> timer \<Rightarrow> picker_flow \<Rightarrow> picker_flow" where
  "rearm t tm s =
     (if tm = CheckPickerStatus \<and> interval_live s
      then s\<lparr>timers := timers s @ [(t + 1000, CheckPickerStatus)]\<rparr>
      else s)"

text \<open>
  Firing timers one after the other; \<open>fire t tm\<close> is the callback of timer \<open>tm\<close> run at
  time \<open>t\<close>. The first argument bounds the number of timers fired.
\<close>

fun run :: "(nat \<Rightarrow> timer \<Rightarrow> picker_flow \<Rightarrow> picker_flow) \<Rightarrow> nat \<Rightarrow> picker_flow \<Rightarrow> picker_flow" where
  "run fire 0 s = s"
| "run fire (Suc n) s =
     (case earliest (timers s) of
        None \<Rightarrow> s
      | Some (t, tm) \<Rightarrow>
          run fire n (rearm t tm (fire t tm (s\<lparr>timers := remove1 (t, tm) (timers s)\<rparr>))))"

definition idle :: "picker_flow \<Rightarrow> bool" where
  "idle s = (timers s = [])"

definition window_closed :: "nat option \<Rightarrow> nat \<Rightarrow> bool" where
  "window_closed closedAt t = (case closedAt of None \<Rightarrow> False | Some c \<Rightarrow> c \<le> t)"

text \<open>
  The interval's callback, the same in both files (the interval is \<^verbatim>\<open>checkPickerStatus\<close>
  in src/AppSecure.js and \<^verbatim>\<open>checkClosed\<close> in app/(tabs)/index.tsx):
  \<^verbatim>\<open>if (pickerWindow.closed) { clearInterval(checkClosed); setTimeout(..., 3000); }\<close>
\<close>

definition on_checkPickerStatus :: "nat option \<Rightarrow> nat \<Rightarrow> picker_flow \<Rightarrow> picker_flow" where
  "on_checkPickerStatus closedAt t s =
     (if window_closed closedAt t
      then setTimeout FollowUp (t + 3000) (clearInterval s)
      else s)"

text \<open>
  src/AppSecure.js. The follow-up fetches \<^verbatim>\<open>/api/photos/picker/media\<close>; the 30-second
  timer clears the interval and fetches the same (``Also try to fetch photos after a longer
  delay in case the window doesn't close properly''). Nothing clears the 30-second timer.
\<close>

definition web_fire :: "nat option \<Rightarrow> nat \<Rightarrow> timer \<Rightarrow> picker_flow \<Rightarrow> picker_flow" where
  "web_fire closedAt t tm s =
     (case tm of
        CheckPickerStatus \<Rightarrow> on_checkPickerStatus closedAt t s
      | FollowUp \<Rightarrow> s\<lparr>fetched := fetched s @ [(t, ByFollowUp)]\<rparr>
      | HardTimeout \<Rightarrow> (clearInterval s)\<lparr>fetched := fetched s @ [(t, ByHardTimeout)]\<rparr>
      | FetchSettles \<Rightarrow> s)"

text \<open>
  app/(tabs)/index.tsx. The follow-up calls \<^verbatim>\<open>fetchSelectedPhotos\<close> and resolves or rejects
  the promise with what it gives; the call sends its first request at once and settles
  \<open>duration\<close> ms later with \<open>result\<close> (both inputs). The 30-second timer clears the interval
  and rejects with \<^verbatim>\<open>Photo picker timeout\<close>. A promise settles once: \<^verbatim>\<open>resolve\<close> and \<^verbatim>\<open>reject\<close>
  on a settled promise do nothing.
\<close>

definition settle :: "settlement \<Rightarrow> picker_flow \<Rightarrow> picker_flow" where
  "settle outcome s = (case promise s of None \<Rightarrow> s\<lparr>promise := Some outcome\<rparr> | Some p \<Rightarrow> s)"

definition fetch_outcome :: "service_error + photo_item list \<Rightarrow> settlement" where
  "fetch_outcome result =
     (case result of Inr photos \<Rightarrow> Resolved photos | Inl error \<Rightarrow> RejectedWith error)"

definition service_fire ::
  "nat option \<Rightarrow> nat \<Rightarrow> service_error + photo_item list \<Rightarrow> nat \<Rightarrow> timer \<Rightarrow> picker_flow
   \<Rightarrow> picker_flow" where
  "service_fire closedAt duration result t tm s =
     (case tm of
        CheckPickerStatus \<Rightarrow> on_checkPickerStatus closedAt t s
      | FollowUp \<Rightarrow>
          setTimeout FetchSettles (t + duration) (s\<lparr>fetched := fetched s @ [(t, ByFollowUp)]\<rparr>)
      | FetchSettles \<Rightarrow> settle (fetch_outcome result) s
      | HardTimeout \<Rightarrow> settle RejectedTimeout (clearInterval s))"

text \<open>
  The first tick of the interval that finds the window closed, among the ticks at 1000,
  2000, ... 29000 ms that come before the 30-second timer.
\<close>

definition detecting_tick :: "nat option \<Rightarrow> nat option" where
  "detecting_tick closedAt = find (\<lambda>k. window_closed closedAt (k * 1000)) [1..<30]"

section \<open>Example inputs\<close>

definition example_env :: process_env where
  "example_env = \<lparr>GOOGLE_CLIENT_ID = ''CID'', GOOGLE_CLIENT_SECRET = ''SECRET'',
                   REACT_APP_GOOGLE_CLIENT_ID_WEB = ''MCID'',
                   REACT_APP_GOOGLE_CLIENT_SECRET_WEB = ''MSECRET'',
                   REDIRECT_URI = ''http://localhost:3000''\<rparr>"

text \<open>One pending session \<^verbatim>\<open>S1\<close> with verifier \<^verbatim>\<open>abc\<close>, created at time 0.\<close>

definition example_state :: backend_state where
  "example_state =
     \<lparr>activeSessions = [''S1'' \<mapsto> \<lparr>codeVerifier = ''abc'', timestamp = 0\<rparr>]\<rparr>"

definition example_mobile_state :: mobile_state where
  "example_mobile_state =
     \<lparr>mobile_activeSessions =
        [''S1'' \<mapsto> \<lparr>codeVerifier = ''abc'', timestamp = 0, userAgent = ''Expo''\<rparr>],
      userTokens =
        [''U1'' \<mapsto> \<lparr>access_token = ''AT1'', refresh_token = Some ''RT1'', expires_at = 1000,
                     user_id = ''U1''\<rparr>,
         ''U2'' \<mapsto> \<lparr>access_token = ''AT2'', refresh_token = Some ''RT2'', expires_at = 2000,
                     user_id = ''U2''\<rparr>]\<rparr>"

definition example_request :: token_request where
  "example_request = \<lparr>req_code = Some ''CODE'', req_state = Some ''S1'', req_userId = None\<rparr>"

definition unknown_state_request :: token_request where
  "unknown_state_request = \<lparr>req_code = Some ''CODE'', req_state = Some ''S9'', req_userId = None\<rparr>"

text \<open>
  A provider that rejects the exchange with the body \<^verbatim>\<open>{error: "invalid_grant"}\<close>; the
  message is the one the HTTP client gives an answer of status 400.
\<close>

definition provider_invalid_grant :: "token_post \<Rightarrow> axios_error + token_data" where
  "provider_invalid_grant form =
     Inl \<lparr>err_message = ''Request failed with status code 400'',
          err_response_data = Some \<lparr>pe_error = Some ''invalid_grant'',
                                    pe_error_description = None\<rparr>\<rparr>"

definition provider_accepts :: "token_post \<Rightarrow> axios_error + token_data" where
  "provider_accepts form =
     Inr \<lparr>data_access_token = ''AT'', data_refresh_token = Some ''RT'',
          data_expires_in = 3599, data_scope = ''openid''\<rparr>"

definition provider_refreshes :: "refresh_post \<Rightarrow> axios_error + refresh_data" where
  "provider_refreshes form = Inr \<lparr>rdata_access_token = ''AT9'', rdata_expires_in = 3599\<rparr>"

definition example_token_inputs :: token_inputs where
  "example_token_inputs = \<lparr>now_at_check = 1000, now_at_store = 1500, tok_randomUUID = ''U7''\<rparr>"

definition late_token_inputs :: token_inputs where
  "late_token_inputs = \<lparr>now_at_check = 600001, now_at_store = 600500, tok_randomUUID = ''U7''\<rparr>"

text \<open>
  Three media items: one with a base URL and no file name, one without \<^verbatim>\<open>mediaFile\<close>, one
  with base URL and file name.
\<close>

definition item_a :: media_item where
  "item_a = \<lparr>item_id = Some ''1'',
             mediaFile = Some \<lparr>baseUrl = Some ''https://p/a'', filename = None,
                                file_mimeType = Some ''image/png''\<rparr>,
             createTime = None, mediaFileMetadata = None\<rparr>"

definition item_b :: media_item where
  "item_b = \<lparr>item_id = Some ''2'', mediaFile = None, createTime = None,
             mediaFileMetadata = None\<rparr>"

definition item_c :: media_item where
  "item_c = \<lparr>item_id = Some ''3'',
             mediaFile = Some \<lparr>baseUrl = Some ''https://p/c'', filename = Some ''c.jpg'',
                                file_mimeType = None\<rparr>,
             createTime = Some ''2024-01-01T00:00:00Z'',
             mediaFileMetadata = Some \<lparr>meta_width = Some 640, meta_height = Some 480\<rparr>\<rparr>"

text \<open>A selection that is never ready: every request is answered 400 FAILED_PRECONDITION.\<close>

definition never_ready :: "nat \<Rightarrow> string \<Rightarrow> string \<Rightarrow> fetch_result" where
  "never_ready k sessionId token =
     FetchNotOk 400 (Some ''FAILED_PRECONDITION'') (Some ''not picked yet'')"



definition example_form :: token_post where
  "example_form = \<lparr>post_client_id = ''CID'', post_client_secret = ''SECRET'',
                    post_code = ''CODE'', post_grant_type = ''authorization_code'',
                    post_redirect_uri = ''http://localhost:3000'',
                    post_code_verifier = ''abc''\<rparr>"




section \<open>Theorems\<close>

subsection \<open>The helpers on known values\<close>

text \<open>The test vectors of RFC 4648, section 10, and two bytes that give \<^verbatim>\<open>+\<close> and \<^verbatim>\<open>/\<close>.\<close>

lemma toString_base64_vectors:
  "toString_base64 [] = []"
  "toString_base64 [0x66] = ''Zg==''"
  "toString_base64 [0x66, 0x6F] = ''Zm8=''"
  "toString_base64 [0x66, 0x6F, 0x6F] = ''Zm9v''"
  "toString_base64 [0x66, 0x6F, 0x6F, 0x62] = ''Zm9vYg==''"
  "toString_base64 [0xFB, 0xFF] = ''+/8=''"
  by (simp_all add: toString_base64_def b64_alphabet_def)

lemma base64urlencode_vectors:
  "base64urlencode [0x66] = ''Zg''"
  "base64urlencode [0xFB, 0xFF] = ''-_8''"
  by (simp_all add: base64urlencode_def toString_base64_def b64_alphabet_def)

lemma split_on_examples:
  "split_on (CHR '' '') ''Bearer abc'' = [''Bearer'', ''abc'']"
  "split_on (CHR '' '') ''Bearer  abc'' = [''Bearer'', [], ''abc'']"
  "split_on (CHR '' '') ''Bearer '' = [''Bearer'', []]"
  "split_on (CHR '' '') [] = [[]]"
  by simp_all

lemma str_includes_examples:
  "str_includes ''error: invalid_grant'' ''invalid_grant''"
  "\<not> str_includes ''Bad Request'' ''invalid_grant''"
  by simp_all

subsection \<open>Base64 and the three replacements\<close>

lemma url_chain_alphabet:
  assumes "n < 64"
  shows "replace_all (CHR ''='') []
           (replace_all (CHR ''/'') ''_'' (replace_all (CHR ''+'') ''-'' [b64_alphabet ! n]))
         = [b64url_alphabet ! n]"
proof -
  let ?f = "\<lambda>c. replace_all (CHR ''='') []
                 (replace_all (CHR ''/'') ''_'' (replace_all (CHR ''+'') ''-'' [c]))"
  have eq: "map ?f b64_alphabet = map (\<lambda>c. [c]) b64url_alphabet"
    by (simp add: b64_alphabet_def b64url_alphabet_def)
  have len: "length b64_alphabet = 64" "length b64url_alphabet = 64"
    by (simp_all add: b64_alphabet_def b64url_alphabet_def)
  have "map ?f b64_alphabet ! n = map (\<lambda>c. [c]) b64url_alphabet ! n"
    by (simp only: eq)
  then show ?thesis
    using assms len by (simp only: nth_map)
qed

lemma replace_all_append:
  "replace_all x r (xs @ ys) = replace_all x r xs @ replace_all x r ys"
  by (induction xs) auto

lemma url_chain_append:
  "replace_all (CHR ''='') [] (replace_all (CHR ''/'') ''_'' (replace_all (CHR ''+'') ''-'' (xs @ ys)))
   = replace_all (CHR ''='') [] (replace_all (CHR ''/'') ''_'' (replace_all (CHR ''+'') ''-'' xs))
   @ replace_all (CHR ''='') [] (replace_all (CHR ''/'') ''_'' (replace_all (CHR ''+'') ''-'' ys))"
  by (simp only: replace_all_append)

lemma url_chain_Cons_alphabet:
  assumes "n < 64"
  shows "replace_all (CHR ''='') []
           (replace_all (CHR ''/'') ''_'' (replace_all (CHR ''+'') ''-'' (b64_alphabet ! n # cs)))
         = b64url_alphabet ! n #  replace_all (CHR ''='') []
           (replace_all (CHR ''/'') ''_'' (replace_all (CHR ''+'') ''-'' cs))"
  using url_chain_append [of "[b64_alphabet ! n]" cs] url_chain_alphabet [OF assms] by simp

lemma sextets:
  fixes a b c :: byte
  shows "unat a div 4 < 64" "unat a mod 4 * 16 < 64" "unat a mod 4 * 16 + unat b div 16 < 64"
    "unat b mod 16 * 4 < 64" "unat b mod 16 * 4 + unat c div 64 < 64" "unat c mod 64 < 64"
proof -
  have bound: "unat x < 256" for x :: byte
    using unsigned_less [of x] by simp
  have d4: "unat a div 4 < 64" and d16: "unat b div 16 < 16" and d64: "unat c div 64 < 4"
    using bound [of a] bound [of b] bound [of c] by (simp_all add: div_less_iff_less_mult)
  have m4: "unat a mod 4 < 4" and m16: "unat b mod 16 < 16" and m64: "unat c mod 64 < 64"
    by simp_all
  show "unat a div 4 < 64" by (rule d4)
  show "unat a mod 4 * 16 < 64" using m4 by linarith
  show "unat a mod 4 * 16 + unat b div 16 < 64" using m4 d16 by linarith
  show "unat b mod 16 * 4 < 64" using m16 by linarith
  show "unat b mod 16 * 4 + unat c div 64 < 64" using m16 d64 by linarith
  show "unat c mod 64 < 64" by (rule m64)
qed

lemma url_chain_pad:
  "replace_all (CHR ''='') [] (replace_all (CHR ''/'') ''_'' (replace_all (CHR ''+'') ''-'' ''='')) = []"
  by simp

lemma url_chain_pad2:
  "replace_all (CHR ''='') [] (replace_all (CHR ''/'') ''_'' (replace_all (CHR ''+'') ''-'' ''=='')) = []"
  by simp

lemma url_chain_one_byte: "replace_all (CHR ''='') [] (replace_all (CHR ''/'') ''_'' (replace_all (CHR ''+'') ''-''
     (b64_encode b64_alphabet ''='' [a]))) = b64_encode b64url_alphabet [] [a]"
  by (simp only: b64_encode.simps append.simps url_chain_Cons_alphabet sextets url_chain_pad2)

lemma url_chain_two_bytes: "replace_all (CHR ''='') [] (replace_all (CHR ''/'') ''_'' (replace_all (CHR ''+'') ''-''
     (b64_encode b64_alphabet ''='' [a, b]))) = b64_encode b64url_alphabet [] [a, b]"
  by (simp only: b64_encode.simps append.simps url_chain_Cons_alphabet sextets url_chain_pad)


lemma triples_induct [case_names Nil One Two Three]:
  assumes "P []" and "\<And>a. P [a]" and "\<And>a b. P [a, b]"
    and "\<And>a b c rest. P rest \<Longrightarrow> P (a # b # c # rest)"
  shows "P (xs :: byte list)"
  using assms by (rule b64_encode.induct [of "\<lambda>al pad. P" "[]" "[]" xs])

lemma b64url_reference_general:
  "replace_all (CHR ''='') [] (replace_all (CHR ''/'') ''_'' (replace_all (CHR ''+'') ''-''
     (b64_encode b64_alphabet ''='' buffer))) = b64_encode b64url_alphabet [] buffer"
proof (induction buffer rule: triples_induct)
  case Nil
  show ?case by simp
next
  case (One a)
  show ?case by (rule url_chain_one_byte)
next
  case (Two a b)
  show ?case by (rule url_chain_two_bytes)
next
  case (Three a b c rest)
  then show ?case
    by (simp only: b64_encode.simps append.simps url_chain_Cons_alphabet sextets)
qed

text \<open>
  C5. \<^verbatim>\<open>generateCodeChallenge\<close> (both backends) and the service layer's
  \<^verbatim>\<open>generateCodeChallenge\<close> are functions of the verifier alone, and each equals the
  reference derivation: the unpadded base64url encoding of the SHA-256 digest of the
  verifier. Encoding in standard base64, replacing every \<^verbatim>\<open>+\<close> by \<^verbatim>\<open>-\<close>, every \<^verbatim>\<open>/\<close> by
  \<^verbatim>\<open>_\<close> and deleting every \<^verbatim>\<open>=\<close> gives the same string as encoding with the URL-safe
  alphabet without padding.
\<close>

theorem generateCodeChallenge_is_reference:
  "generateCodeChallenge sha256 verifier = deriveChallenge_reference sha256 verifier
   \<and> service_generateCodeChallenge sha256 verifier = deriveChallenge_reference sha256 verifier"
  by (simp only: generateCodeChallenge_def service_generateCodeChallenge_def
      digestStringAsync_base64_def deriveChallenge_reference_def base64urlencode_def
      toString_base64_def Let_def b64url_reference_general)

subsection \<open>The session store under code exchange\<close>

lemma oauth_token_absent:
  assumes "\<forall>s. req_state req = Some s \<longrightarrow> activeSessions st s = None"
  shows "oauth_token env axios_post req st =
           (ErrorJson 400 (if truthy (req_code req) \<and> truthy (req_state req)
                           then ''Invalid or expired session''
                           else ''Missing code or state parameter''), [], st)"
  using assms by (auto simp: oauth_token_def truthy_def split: option.splits)

lemma oauth_token_success_removes:
  assumes "oauth_token env axios_post req st = (r, calls, st')" and "status r = 200"
    and "req_state req = Some s"
  shows "activeSessions st' s = None"
  using assms
  by (auto simp: oauth_token_def Let_def split: if_splits option.splits sum.splits)

lemma oauth_token_failure_keeps:
  assumes "oauth_token env axios_post req st = (r, calls, st')" and "status r \<noteq> 200"
  shows "st' = st"
  using assms
  by (auto simp: oauth_token_def Let_def split: if_splits option.splits sum.splits)

lemma oauth_token_split:
  "oauth_token env axios_post req st =
     (case oauth_token_begin env req st of
        Responds r \<Rightarrow> (r, [], st)
      | Awaits form state userId \<Rightarrow>
          (case oauth_token_resume (axios_post form) state st of
             (r, st') \<Rightarrow> (r, [TokenEndpointPost form], st')))"
  by (simp add: oauth_token_def oauth_token_begin_def oauth_token_resume_def Let_def
      split: option.splits sum.splits)




lemma mobile_oauth_token_dead:
  assumes "\<forall>s. req_state req = Some s \<longrightarrow>
             (case mobile_activeSessions st s of
                None \<Rightarrow> True
              | Some session \<Rightarrow> now_at_check inp - timestamp session > 600000)"
    and "mobile_oauth_token env axios_post inp req st = (r, calls, st')"
  shows "r \<in> {ErrorJson 400 ''Missing code or state parameter'',
              ErrorJson 400 ''Invalid or expired session'', ErrorJson 400 ''Session expired''}
         \<and> calls = [] \<and> userTokens st' = userTokens st
         \<and> (\<forall>s. req_state req = Some s \<longrightarrow> truthy (req_code req) \<longrightarrow> s \<noteq> []
                \<longrightarrow> mobile_activeSessions st' s = None)
         \<and> (\<forall>s. mobile_activeSessions st s = None \<longrightarrow> mobile_activeSessions st' s = None)"
  using assms
  by (auto simp: mobile_oauth_token_def truthy_def Let_def split: option.splits if_splits)

lemma mobile_oauth_token_success_removes:
  assumes "mobile_oauth_token env axios_post inp req st = (r, calls, st')" and "status r = 200"
    and "req_state req = Some s"
  shows "mobile_activeSessions st' s = None"
  using assms
  by (auto simp: mobile_oauth_token_def Let_def split: if_splits option.splits sum.splits)

lemma mobile_oauth_token_failure_keeps:
  assumes "mobile_oauth_token env axios_post inp req st = (r, calls, st')" and "status r = 500"
  shows "st' = st"
  using assms
  by (auto simp: mobile_oauth_token_def Let_def split: if_splits option.splits sum.splits)

lemma mobile_oauth_token_split:
  "mobile_oauth_token env axios_post inp req st =
     (case mobile_oauth_token_begin env (now_at_check inp) req st of
        (Responds r, st') \<Rightarrow> (r, [], st')
      | (Awaits form state userId, st') \<Rightarrow>
          (case mobile_oauth_token_resume (axios_post form) (now_at_store inp)
                  (tok_randomUUID inp) state userId st' of
             (r, st'') \<Rightarrow> (r, [TokenEndpointPost form], st'')))"
  by (simp add: mobile_oauth_token_def mobile_oauth_token_begin_def
      mobile_oauth_token_resume_def Let_def split: option.splits sum.splits)




subsection \<open>Single use of a session\<close>




subsection \<open>Expiry of a session\<close>

text \<open>
  The mobile backend enforces the ten-minute lifetime: a code exchange whose state names a
  session created at time \<open>T\<close>, served when \<^verbatim>\<open>Date.now()\<close> is strictly later than
  \<open>T + 600000\<close> ms, is answered 400 \<^verbatim>\<open>Session expired\<close>, makes no call to the provider and
  deletes the session.
\<close>

lemma mobile_session_expires:
  assumes "truthy (req_code req)" and "req_state req = Some s" and "s \<noteq> []"
    and "mobile_activeSessions mst s = Some session"
    and "now_at_check inp > timestamp session + 600000"
  shows "mobile_oauth_token env axios_post inp req mst =
          (ErrorJson 400 ''Session expired'', [],
           mst\<lparr>mobile_activeSessions := (mobile_activeSessions mst)(s := None)\<rparr>)"
  using assms by (simp add: mobile_oauth_token_def truthy_def)

text \<open>
  The web backend stores \<^verbatim>\<open>timestamp: Date.now()\<close> with every session and answers
  \<^verbatim>\<open>Invalid or expired session\<close>, but its handler never reads the clock or the timestamp:
  its answer and its calls to the provider are the same for every timestamp.
\<close>

lemma web_answer_ignores_timestamp:
  "fst (oauth_token env axios_post req
          (st\<lparr>activeSessions := (activeSessions st)(s \<mapsto> sess\<lparr>timestamp := t\<rparr>)\<rparr>))
     = fst (oauth_token env axios_post req
          (st\<lparr>activeSessions := (activeSessions st)(s \<mapsto> sess)\<rparr>))
   \<and> fst (snd (oauth_token env axios_post req
          (st\<lparr>activeSessions := (activeSessions st)(s \<mapsto> sess\<lparr>timestamp := t\<rparr>)\<rparr>)))
     = fst (snd (oauth_token env axios_post req
          (st\<lparr>activeSessions := (activeSessions st)(s \<mapsto> sess)\<rparr>)))"
  by (auto simp: oauth_token_def Let_def split: option.splits sum.splits)

text \<open>
  C2. The claim holds of the mobile backend and fails on the web backend, which never
  compares the timestamp it stores. The session \<^verbatim>\<open>S1\<close> of the example was created at
  time 0 and the exchange arrives at time 600001. The mobile handler answers 400
  \<^verbatim>\<open>Session expired\<close>. The web handler takes no time at all, so the answer below is its
  answer at every moment: the verifier is sent to the provider and the tokens are returned.
\<close>

theorem web_exchange_accepts_expired_session:
  "timestamp (the (activeSessions example_state ''S1'')) = 0
   \<and> now_at_check late_token_inputs = 600001
   \<and> fst (mobile_oauth_token example_env provider_accepts late_token_inputs example_request
          example_mobile_state)
     = ErrorJson 400 ''Session expired''
   \<and> fst (oauth_token example_env provider_accepts example_request example_state)
     = TokenJson ''AT'' (Some ''RT'') 3599 ''openid'' None
   \<and> fst (snd (oauth_token example_env provider_accepts example_request example_state))
     = [TokenEndpointPost \<lparr>post_client_id = ''CID'', post_client_secret = ''SECRET'',
         post_code = ''CODE'', post_grant_type = ''authorization_code'',
         post_redirect_uri = ''http://localhost:3000'', post_code_verifier = ''abc''\<rparr>]"
  by (simp add: oauth_token_def mobile_oauth_token_def example_env_def provider_accepts_def
      example_request_def example_state_def example_mobile_state_def late_token_inputs_def
      truthy_def)

theorem web_exchange_accepts_expired_session_witness:
  "status (fst (oauth_token example_env provider_accepts example_request example_state)) = 200
   \<and> status (fst (mobile_oauth_token example_env provider_accepts late_token_inputs
        example_request example_mobile_state)) = 400"
  using web_exchange_accepts_expired_session by simp

subsection \<open>Exchange without a live session\<close>

text \<open>
  Rejection before the call. A code exchange whose state is missing or is not a key
  of the pending sessions (never created, or removed by an accepted exchange) is answered
  with status 400 before the POST to the token endpoint is reached, in both backends; the
  mobile backend treats a session older than ten minutes the same way. The handler makes
  no call to the provider and stores no token.
\<close>

lemma exchange_without_live_session_makes_no_call:
  "((\<forall>s. req_state req = Some s \<longrightarrow> activeSessions st s = None)
    \<longrightarrow> oauth_token env axios_post req st =
          (ErrorJson 400 (if truthy (req_code req) \<and> truthy (req_state req)
                          then ''Invalid or expired session''
                          else ''Missing code or state parameter''), [], st))
   \<and> ((\<forall>s. req_state req = Some s \<longrightarrow>
           (case mobile_activeSessions mst s of
              None \<Rightarrow> True
            | Some session \<Rightarrow> now_at_check inp - timestamp session > 600000))
    \<longrightarrow> fst (mobile_oauth_token env axios_post inp req mst)
          \<in> {ErrorJson 400 ''Missing code or state parameter'',
             ErrorJson 400 ''Invalid or expired session'', ErrorJson 400 ''Session expired''}
        \<and> fst (snd (mobile_oauth_token env axios_post inp req mst)) = []
        \<and> userTokens (snd (snd (mobile_oauth_token env axios_post inp req mst)))
          = userTokens mst)"
proof (intro conjI impI)
  assume "\<forall>s. req_state req = Some s \<longrightarrow> activeSessions st s = None"
  then show "oauth_token env axios_post req st =
          (ErrorJson 400 (if truthy (req_code req) \<and> truthy (req_state req)
                          then ''Invalid or expired session''
                          else ''Missing code or state parameter''), [], st)"
    by (rule oauth_token_absent)
next
  let ?res = "mobile_oauth_token env axios_post inp req mst"
  assume dead: "\<forall>s. req_state req = Some s \<longrightarrow>
           (case mobile_activeSessions mst s of
              None \<Rightarrow> True
            | Some session \<Rightarrow> now_at_check inp - timestamp session > 600000)"
  have res: "?res = (fst ?res, fst (snd ?res), snd (snd ?res))"
    by simp
  note d = mobile_oauth_token_dead [OF dead res]
  show "fst ?res \<in> {ErrorJson 400 ''Missing code or state parameter'',
             ErrorJson 400 ''Invalid or expired session'', ErrorJson 400 ''Session expired''}"
    using d by blast
  show "fst (snd ?res) = []"
    using d by blast
  show "userTokens (snd (snd ?res)) = userTokens mst"
    using d by blast
qed

lemma exchange_without_live_session_example:
  "oauth_token example_env provider_accepts unknown_state_request example_state
     = (ErrorJson 400 ''Invalid or expired session'', [], example_state)
   \<and> fst (snd (mobile_oauth_token example_env provider_accepts late_token_inputs
        example_request example_mobile_state)) = []
   \<and> userTokens (snd (snd (mobile_oauth_token example_env provider_accepts late_token_inputs
        example_request example_mobile_state))) = userTokens example_mobile_state"
proof -
  have h1: "\<forall>s. req_state unknown_state_request = Some s \<longrightarrow> activeSessions example_state s = None"
    by (simp add: unknown_state_request_def example_state_def)
  have h2: "\<forall>s. req_state example_request = Some s \<longrightarrow>
           (case mobile_activeSessions example_mobile_state s of
              None \<Rightarrow> True
            | Some session \<Rightarrow> now_at_check late_token_inputs - timestamp session > 600000)"
    by (simp add: example_request_def example_mobile_state_def late_token_inputs_def)
  have t: "truthy (req_code unknown_state_request) \<and> truthy (req_state unknown_state_request)"
    by (simp add: unknown_state_request_def truthy_def)
  note web = exchange_without_live_session_makes_no_call
    [where req = unknown_state_request and st = example_state and env = example_env
       and axios_post = provider_accepts, THEN conjunct1]
  note mobile = exchange_without_live_session_makes_no_call
    [where req = example_request and mst = example_mobile_state and env = example_env
       and axios_post = provider_accepts and inp = late_token_inputs, THEN conjunct2]
  from web h1 t mobile h2 show ?thesis by simp
qed

text \<open>
  C3. The claim fails on the web backend for an expired session, by the same missing
  comparison as in C2. The session \<^verbatim>\<open>S1\<close> was created at time 0; the web handler reads no
  clock, so at any later time, also more than ten minutes after, the exchange naming
  \<^verbatim>\<open>S1\<close> posts the form with the stored verifier to the token endpoint. With a provider
  that rejects the code the answer is the 500 of a failed token exchange, not the 400 of a
  dead session.
\<close>

theorem web_exchange_of_expired_session_calls_provider:
  "timestamp (the (activeSessions example_state ''S1'')) = 0
   \<and> fst (snd (oauth_token example_env provider_invalid_grant example_request example_state))
     = [TokenEndpointPost example_form]
   \<and> post_code_verifier example_form = ''abc''
   \<and> status (fst (oauth_token example_env provider_invalid_grant example_request example_state))
     = 500"
  by (simp add: oauth_token_def example_env_def provider_invalid_grant_def example_request_def
      example_state_def example_form_def truthy_def)

theorem web_exchange_of_expired_session_calls_provider_witness:
  "fst (snd (oauth_token example_env provider_invalid_grant example_request example_state)) \<noteq> []
   \<and> status (fst (oauth_token example_env provider_invalid_grant example_request
        example_state)) \<noteq> 400"
  using web_exchange_of_expired_session_calls_provider by simp

subsection \<open>What a rejected exchange surfaces\<close>

text \<open>
  C6 (amended). When the provider rejects a code exchange (the POST throws), both backends
  answer with status 500, \<^verbatim>\<open>error: "Token exchange failed"\<close>, and \<^verbatim>\<open>details\<close> equal to the
  provider's \<^verbatim>\<open>error_description\<close> if the answer carries a non-empty one, else to the
  message of the HTTP client's error. The provider's \<^verbatim>\<open>error\<close> code is logged, not returned.
\<close>

theorem rejected_exchange_surfaces_description_or_message:
  "(truthy (req_code req) \<and> req_state req = Some s \<and> s \<noteq> []
      \<and> activeSessions st s = Some session \<and> (\<forall>form. axios_post form = Inl error)
    \<longrightarrow> fst (oauth_token env axios_post req st) =
          ErrorDetailsJson 500 ''Token exchange failed''
            (case err_response_data error of
               None \<Rightarrow> err_message error
             | Some body \<Rightarrow>
                 (case pe_error_description body of
                    None \<Rightarrow> err_message error
                  | Some description \<Rightarrow>
                      if description = [] then err_message error else description)))
   \<and> (truthy (req_code req) \<and> req_state req = Some s \<and> s \<noteq> []
      \<and> mobile_activeSessions mst s = Some msession
      \<and> \<not> now_at_check inp - timestamp msession > 600000
      \<and> (\<forall>form. axios_post form = Inl error)
    \<longrightarrow> fst (mobile_oauth_token env axios_post inp req mst) =
          ErrorDetailsJson 500 ''Token exchange failed''
            (case err_response_data error of
               None \<Rightarrow> err_message error
             | Some body \<Rightarrow>
                 (case pe_error_description body of
                    None \<Rightarrow> err_message error
                  | Some description \<Rightarrow>
                      if description = [] then err_message error else description)))"
  by (auto simp: oauth_token_def mobile_oauth_token_def truthy_def Let_def js_or_def
        response_error_description_def split: option.splits)

theorem rejected_exchange_surfaces_description_or_message_witness:
  "fst (oauth_token example_env provider_invalid_grant example_request example_state)
     = ErrorDetailsJson 500 ''Token exchange failed'' ''Request failed with status code 400''
   \<and> fst (mobile_oauth_token example_env provider_invalid_grant example_token_inputs
       example_request example_mobile_state)
     = ErrorDetailsJson 500 ''Token exchange failed'' ''Request failed with status code 400''"
proof -
  let ?error = "\<lparr>err_message = ''Request failed with status code 400'',
                  err_response_data = Some \<lparr>pe_error = Some ''invalid_grant'',
                                            pe_error_description = None\<rparr>\<rparr>"
  have h: "truthy (req_code example_request) \<and> req_state example_request = Some ''S1''
      \<and> ''S1'' \<noteq> [] \<and> (\<forall>form. provider_invalid_grant form = Inl ?error)"
    by (simp add: example_request_def truthy_def provider_invalid_grant_def)
  have w: "activeSessions example_state ''S1'' = Some \<lparr>codeVerifier = ''abc'', timestamp = 0\<rparr>"
    by (simp add: example_state_def)
  have m: "mobile_activeSessions example_mobile_state ''S1''
             = Some \<lparr>codeVerifier = ''abc'', timestamp = 0, userAgent = ''Expo''\<rparr>
           \<and> \<not> now_at_check example_token_inputs
                 - timestamp \<lparr>codeVerifier = ''abc'', timestamp = 0, userAgent = ''Expo''\<rparr> > 600000"
    by (simp add: example_mobile_state_def example_token_inputs_def)
  from rejected_exchange_surfaces_description_or_message
    [of example_request "''S1''" example_state "\<lparr>codeVerifier = ''abc'', timestamp = 0\<rparr>"
        provider_invalid_grant ?error example_env example_mobile_state
        "\<lparr>codeVerifier = ''abc'', timestamp = 0, userAgent = ''Expo''\<rparr>" example_token_inputs]
    h w m
  show ?thesis by simp
qed

text \<open>
  C6, as stated, fails: for the provider answer \<^verbatim>\<open>{error: "invalid_grant"}\<close> the handler's
  answer is the fixed \<^verbatim>\<open>error\<close> text and the HTTP client's message; neither contains
  \<^verbatim>\<open>invalid_grant\<close>.
\<close>

theorem invalid_grant_not_surfaced_counterexample:
  "fst (oauth_token example_env provider_invalid_grant example_request example_state)
     = ErrorDetailsJson 500 ''Token exchange failed'' ''Request failed with status code 400''
   \<and> \<not> str_includes ''Token exchange failed'' ''invalid_grant''
   \<and> \<not> str_includes ''Request failed with status code 400'' ''invalid_grant''"
  by (simp add: oauth_token_def example_env_def provider_invalid_grant_def example_request_def
      example_state_def truthy_def js_or_def response_error_description_def)

subsection \<open>Refresh\<close>

text \<open>
  C7. A successful refresh for a known \<^verbatim>\<open>user_id\<close> replaces the stored record's
  \<^verbatim>\<open>access_token\<close> and \<^verbatim>\<open>expires_at\<close> and nothing else: the record keeps its \<^verbatim>\<open>user_id\<close>
  and \<^verbatim>\<open>refresh_token\<close>, every other entry of \<^verbatim>\<open>userTokens\<close> is unchanged, and so are the
  pending sessions.
\<close>

theorem refresh_replaces_access_token_and_expiry_only:
  assumes "req_user_id req = Some u" and "u \<noteq> []" and "userTokens st u = Some userToken"
    and "oauth_refresh env axios_post now req st = (RefreshJson new_token expires_in, calls, st')"
  shows "userTokens st' =
           (userTokens st)(u \<mapsto> userToken\<lparr>access_token := new_token,
                                            expires_at := now + expires_in * 1000\<rparr>)
         \<and> (\<exists>userToken'. userTokens st' u = Some userToken'
               \<and> access_token userToken' = new_token
               \<and> expires_at userToken' = now + expires_in * 1000
               \<and> user_id userToken' = user_id userToken
               \<and> refresh_token userToken' = refresh_token userToken)
         \<and> (\<forall>k. k \<noteq> u \<longrightarrow> userTokens st' k = userTokens st k)
         \<and> mobile_activeSessions st' = mobile_activeSessions st"
  using assms
  by (auto simp: oauth_refresh_def truthy_def Let_def split: if_splits sum.splits option.splits)

theorem refresh_replaces_access_token_and_expiry_only_witness:
  "userTokens (snd (snd (oauth_refresh example_env provider_refreshes 5000
       \<lparr>req_refresh_token = Some ''RT1'', req_user_id = Some ''U1''\<rparr> example_mobile_state)))
   = (userTokens example_mobile_state)
       (''U1'' \<mapsto> \<lparr>access_token = ''AT9'', refresh_token = Some ''RT1'', expires_at = 3604000,
                    user_id = ''U1''\<rparr>)"
proof -
  let ?req = "\<lparr>req_refresh_token = Some ''RT1'', req_user_id = Some ''U1''\<rparr>"
  let ?tok = "\<lparr>access_token = ''AT1'', refresh_token = Some ''RT1'', expires_at = 1000,
               user_id = ''U1''\<rparr>"
  let ?res = "oauth_refresh example_env provider_refreshes 5000 ?req example_mobile_state"
  have h1: "req_user_id ?req = Some ''U1''" and h2: "''U1'' \<noteq> []"
    and h3: "userTokens example_mobile_state ''U1'' = Some ?tok"
    by (simp_all add: example_mobile_state_def)
  have h4: "?res = (RefreshJson ''AT9'' 3599, fst (snd ?res), snd (snd ?res))"
    by (simp add: oauth_refresh_def provider_refreshes_def truthy_def Let_def
        example_mobile_state_def)
  from refresh_replaces_access_token_and_expiry_only [OF h1 h2 h3 h4]
  show ?thesis by simp
qed

subsection \<open>Resolution of the access token\<close>

lemma split_on_nonempty: "split_on d s \<noteq> []"
  by (induction s) (auto split: list.splits)

lemma hd_split_on: "hd (split_on d s) = takeWhile (\<lambda>c. c \<noteq> d) s"
  by (induction s) (auto split: list.splits simp: split_on_nonempty)

lemma split_on_Bearer:
  "js_index (split_on (CHR '' '') (''Bearer '' @ rest)) 1
     = Some (takeWhile (\<lambda>c. c \<noteq> CHR '' '') rest)"
proof -
  obtain w ws where ws: "split_on (CHR '' '') rest = w # ws"
    using split_on_nonempty [of "CHR '' ''" rest] by (cases "split_on (CHR '' '') rest") auto
  then have "w = takeWhile (\<lambda>c. c \<noteq> CHR '' '') rest"
    using hd_split_on [of "CHR '' ''" rest] by simp
  with ws show ?thesis
    by (simp add: js_index_def)
qed

lemma resolve_Bearer:
  "resolve_access_token (Some (''Bearer '' @ rest)) uid tokens now
     = Inr (Some (takeWhile (\<lambda>c. c \<noteq> CHR '' '') rest))"
  using split_on_Bearer [of rest] by (simp add: resolve_access_token_def truthy_def)

text \<open>
  C9. At each of the seven authenticated endpoints of the mobile backend, a request whose
  \<^verbatim>\<open>Authorization\<close> header begins with \<^verbatim>\<open>Bearer \<close> is passed on to the provider with the
  header's token (the text between the first and the second space; all that follows
  \<^verbatim>\<open>Bearer \<close> when the token holds no space, as the token syntax requires), whatever
  \<^verbatim>\<open>user_id\<close> the request carries, whatever \<^verbatim>\<open>userTokens\<close> holds and whatever the time is.
  The answer 401 \<^verbatim>\<open>Token expired or invalid\<close> is given only to a request without such a
  header that names a \<^verbatim>\<open>user_id\<close>.
\<close>

theorem bearer_header_is_used_and_user_id_ignored:
  "(authorization req = Some (''Bearer '' @ token) \<and> required_parameter ep req = None
    \<longrightarrow> authenticate ep req tokens now
          = CallsProvider ep (''Bearer '' @ takeWhile (\<lambda>c. c \<noteq> CHR '' '') token)
        \<and> authenticate ep (req\<lparr>param_user_id := uid\<rparr>) tokens' now'
          = authenticate ep req tokens now
        \<and> (CHR '' '' \<notin> set token
            \<longrightarrow> authenticate ep req tokens now = CallsProvider ep (''Bearer '' @ token)))
   \<and> (authenticate ep req tokens now = Answered (ErrorJson 401 ''Token expired or invalid'')
    \<longrightarrow> \<not> (truthy (authorization req) \<and> prefix ''Bearer '' (the (authorization req)))
        \<and> truthy (param_user_id req))"
proof (intro conjI impI)
  assume h: "authorization req = Some (''Bearer '' @ token) \<and> required_parameter ep req = None"
  have same: "required_parameter ep (req\<lparr>param_user_id := uid\<rparr>) = required_parameter ep req"
    by (cases ep) simp_all
  show called: "authenticate ep req tokens now
          = CallsProvider ep (''Bearer '' @ takeWhile (\<lambda>c. c \<noteq> CHR '' '') token)"
    using h resolve_Bearer [of token "param_user_id req" tokens now]
    by (simp add: authenticate_def template_def)
  show "authenticate ep (req\<lparr>param_user_id := uid\<rparr>) tokens' now'
          = authenticate ep req tokens now"
    using h same resolve_Bearer [of token uid tokens' now']
      resolve_Bearer [of token "param_user_id req" tokens now]
    by (simp add: authenticate_def)
  assume "CHR '' '' \<notin> set token"
  then have "takeWhile (\<lambda>c. c \<noteq> CHR '' '') token = token"
    by (auto simp: takeWhile_eq_all_conv)
  with called show "authenticate ep req tokens now = CallsProvider ep (''Bearer '' @ token)"
    by simp
next
  assume a: "authenticate ep req tokens now = Answered (ErrorJson 401 ''Token expired or invalid'')"
  have np: "required_parameter ep req \<noteq> Some (ErrorJson 401 ''Token expired or invalid'')"
    by (cases ep) simp_all
  from a np show "\<not> (truthy (authorization req) \<and> prefix ''Bearer '' (the (authorization req)))"
    by (auto simp: authenticate_def resolve_access_token_def split: option.splits sum.splits)
  from a np show "truthy (param_user_id req)"
    by (auto simp: authenticate_def resolve_access_token_def
        split: option.splits sum.splits if_splits)
qed

theorem bearer_header_is_used_and_user_id_ignored_witness:
  "authenticate DriveFiles
      \<lparr>authorization = Some ''Bearer XYZ'', param_user_id = Some ''U1'', param_date = None,
       param_sessionId = None\<rparr> (userTokens example_mobile_state) 5000
     = CallsProvider DriveFiles ''Bearer XYZ''
   \<and> truthy (param_user_id
        \<lparr>authorization = None, param_user_id = Some ''U1'', param_date = None,
         param_sessionId = None\<rparr>)"
proof -
  let ?req = "\<lparr>authorization = Some ''Bearer XYZ'', param_user_id = Some ''U1'',
               param_date = None, param_sessionId = None\<rparr>"
  let ?req' = "\<lparr>authorization = None, param_user_id = Some ''U1'', param_date = None,
                param_sessionId = None\<rparr>"
  have h: "authorization ?req = Some (''Bearer '' @ ''XYZ'')
           \<and> required_parameter DriveFiles ?req = None"
    by simp
  have s: "CHR '' '' \<notin> set ''XYZ''"
    by simp
  have e: "authenticate DriveFiles ?req' (userTokens example_mobile_state) 5000
             = Answered (ErrorJson 401 ''Token expired or invalid'')"
    by (simp add: authenticate_def resolve_access_token_def truthy_def example_mobile_state_def)
  note used = bearer_header_is_used_and_user_id_ignored
    [where req = ?req and token = "''XYZ''" and ep = DriveFiles
       and tokens = "userTokens example_mobile_state" and now = 5000, THEN conjunct1]
  note only = bearer_header_is_used_and_user_id_ignored
    [where req = ?req' and ep = DriveFiles
       and tokens = "userTokens example_mobile_state" and now = 5000, THEN conjunct2]
  from used h s have "authenticate DriveFiles ?req (userTokens example_mobile_state) 5000
     = CallsProvider DriveFiles (''Bearer '' @ ''XYZ'')"
    by blast
  moreover from only e have "truthy (param_user_id ?req')"
    by blast
  ultimately show ?thesis by simp
qed

subsection \<open>Normalization of picker media\<close>

lemma push_photos_filter:
  "push_photos items photos
     = photos @ map (\<lambda>item. photo_of item (the (item_baseUrl item)))
                  (filter (\<lambda>item. truthy (item_baseUrl item)) items)"
  by (induction items arbitrary: photos) (simp_all add: Let_def)

text \<open>
  C10. The normalization step emits one photo for each media item whose
  \<^verbatim>\<open>mediaFile.baseUrl\<close> is present (passes the code's test \<^verbatim>\<open>if (baseUrl)\<close>: it is a
  non-empty string), in the order of the input, and drops every other item, so the output
  is never longer than the input. Each emitted photo has the item's \<^verbatim>\<open>baseUrl\<close> as \<^verbatim>\<open>url\<close>,
  that URL followed by \<^verbatim>\<open>=w200-h200\<close> as its one thumbnail, and the name
  \<^verbatim>\<open>Photo <id>\<close> when \<^verbatim>\<open>mediaFile.filename\<close> is absent.
\<close>

theorem transform_media_items_filters_in_order:
  "transform_media_items (Some items)
     = map (\<lambda>item. photo_of item (the (item_baseUrl item)))
         (filter (\<lambda>item. truthy (item_baseUrl item)) items)
   \<and> map url (transform_media_items (Some items))
     = map (\<lambda>item. the (item_baseUrl item)) (filter (\<lambda>item. truthy (item_baseUrl item)) items)
   \<and> length (transform_media_items (Some items)) \<le> length items
   \<and> (\<forall>photo \<in> set (transform_media_items (Some items)).
        thumbnails photo = [url photo @ ''=w200-h200''])
   \<and> (\<forall>item \<in> set items. truthy (item_baseUrl item) \<longrightarrow>
        name (photo_of item (the (item_baseUrl item)))
          = (if truthy (item_filename item) then the (item_filename item)
             else ''Photo '' @ template (item_id item)))
   \<and> (\<forall>item \<in> set items. truthy (item_baseUrl item) \<longrightarrow> item_filename item = None
        \<longrightarrow> name (photo_of item (the (item_baseUrl item))) = ''Photo '' @ template (item_id item))
   \<and> transform_media_items None = []"
  by (auto simp: transform_media_items_def push_photos_filter photo_of_def Let_def js_or_def
        comp_def truthy_def split: option.splits)

theorem transform_media_items_filters_in_order_witness:
  "map url (transform_media_items (Some [item_a, item_b, item_c])) = [''https://p/a'', ''https://p/c'']
   \<and> name (photo_of item_a (the (item_baseUrl item_a))) = ''Photo 1''"
proof -
  note inst = transform_media_items_filters_in_order [of "[item_a, item_b, item_c]"]
  have a: "item_a \<in> set [item_a, item_b, item_c]" "truthy (item_baseUrl item_a)"
    "item_filename item_a = None" "template (item_id item_a) = ''1''"
    by (simp_all add: item_a_def item_baseUrl_def item_filename_def truthy_def template_def)
  have f: "map (\<lambda>item. the (item_baseUrl item))
             (filter (\<lambda>item. truthy (item_baseUrl item)) [item_a, item_b, item_c])
           = [''https://p/a'', ''https://p/c'']"
    by (simp add: item_a_def item_b_def item_c_def item_baseUrl_def truthy_def)
  from inst have "map url (transform_media_items (Some [item_a, item_b, item_c]))
     = map (\<lambda>item. the (item_baseUrl item))
         (filter (\<lambda>item. truthy (item_baseUrl item)) [item_a, item_b, item_c])"
    by blast
  with f have one: "map url (transform_media_items (Some [item_a, item_b, item_c]))
     = [''https://p/a'', ''https://p/c'']"
    by simp
  from inst a(1-3) have "name (photo_of item_a (the (item_baseUrl item_a)))
     = ''Photo '' @ template (item_id item_a)"
    by blast
  with a(4) one show ?thesis by simp
qed

subsection \<open>The retrying fetch\<close>

lemma fetchSelectedPhotos_not_ready:
  assumes "truthy accessToken"
    and "fetch (requests lg) sessionId (the accessToken)
           = FetchNotOk code (Some ''FAILED_PRECONDITION'') message"
  shows "fetchSelectedPhotos fetch accessToken sessionId retryCount lg =
           (if retryCount < 3
            then fetchSelectedPhotos fetch accessToken sessionId (retryCount + 1)
                   (lg\<lparr>requests := requests lg + 1,
                       delays := delays lg @ [(retryCount + 1) * 2000]\<rparr>)
            else (Inl (PhotoPickerApiError code (js_or message ''Unknown error'')),
                  lg\<lparr>requests := requests lg + 1\<rparr>))"
  using assms by (subst fetchSelectedPhotos.simps) (simp add: Let_def)

text \<open>
  C4. When every request for the selection's media is answered with the provider status
  \<^verbatim>\<open>FAILED_PRECONDITION\<close>, \<^verbatim>\<open>fetchSelectedPhotos\<close> (called with a token, \<^verbatim>\<open>retryCount\<close> at its
  default 0) sends exactly four requests, the first and three retries, sleeps 2000,
  4000 and 6000 ms between them, and then throws the terminal error
  \<^verbatim>\<open>Photo Picker API error: <status> - <message>\<close>. The method is total: for every input
  the recursion ends, since \<^verbatim>\<open>retryCount\<close> grows with every retry and retries stop at 3.
\<close>

theorem fetchSelectedPhotos_retry_bound:
  assumes "truthy accessToken"
    and "\<forall>k. fetch k sessionId (the accessToken)
               = FetchNotOk code (Some ''FAILED_PRECONDITION'') message"
  shows "fetchSelectedPhotos fetch accessToken sessionId 0 \<lparr>requests = 0, delays = []\<rparr>
           = (Inl (PhotoPickerApiError code (js_or message ''Unknown error'')),
              \<lparr>requests = 4, delays = [2000, 4000, 6000]\<rparr>)"
proof -
  have step: "fetchSelectedPhotos fetch accessToken sessionId retryCount lg =
           (if retryCount < 3
            then fetchSelectedPhotos fetch accessToken sessionId (retryCount + 1)
                   (lg\<lparr>requests := requests lg + 1,
                       delays := delays lg @ [(retryCount + 1) * 2000]\<rparr>)
            else (Inl (PhotoPickerApiError code (js_or message ''Unknown error'')),
                  lg\<lparr>requests := requests lg + 1\<rparr>))" for retryCount lg
    using assms by (intro fetchSelectedPhotos_not_ready) simp_all
  have "fetchSelectedPhotos fetch accessToken sessionId 0 \<lparr>requests = 0, delays = []\<rparr>
        = fetchSelectedPhotos fetch accessToken sessionId 1 \<lparr>requests = 1, delays = [2000]\<rparr>"
    by (subst step) (simp add: eval_nat_numeral)
  also have "\<dots> = fetchSelectedPhotos fetch accessToken sessionId 2
                     \<lparr>requests = 2, delays = [2000, 4000]\<rparr>"
    by (subst step) (simp add: eval_nat_numeral)
  also have "\<dots> = fetchSelectedPhotos fetch accessToken sessionId 3
                     \<lparr>requests = 3, delays = [2000, 4000, 6000]\<rparr>"
    by (subst step) (simp add: eval_nat_numeral)
  also have "\<dots> = (Inl (PhotoPickerApiError code (js_or message ''Unknown error'')),
                    \<lparr>requests = 4, delays = [2000, 4000, 6000]\<rparr>)"
    by (subst step) (simp add: eval_nat_numeral)
  finally show ?thesis .
qed

theorem fetchSelectedPhotos_retry_bound_witness:
  "fetchSelectedPhotos never_ready (Some ''TOKEN'') ''SID'' 0 \<lparr>requests = 0, delays = []\<rparr>
     = (Inl (PhotoPickerApiError 400 ''not picked yet''),
        \<lparr>requests = 4, delays = [2000, 4000, 6000]\<rparr>)"
proof -
  have h1: "truthy (Some ''TOKEN'')"
    by (simp add: truthy_def)
  have h2: "\<forall>k. never_ready k ''SID'' (the (Some ''TOKEN''))
               = FetchNotOk 400 (Some ''FAILED_PRECONDITION'') (Some ''not picked yet'')"
    by (simp add: never_ready_def)
  from fetchSelectedPhotos_retry_bound
    [where fetch = never_ready and accessToken = "Some ''TOKEN''" and sessionId = "''SID''"
       and code = 400 and message = "Some ''not picked yet''", OF h1 h2]
  show ?thesis
    by (simp add: js_or_def)
qed

subsection \<open>The poll and the 30-second timer\<close>

lemma run_unfold:
  "0 < n \<Longrightarrow> run fire n s =
     (case earliest (timers s) of
        None \<Rightarrow> s
      | Some (t, tm) \<Rightarrow>
          run fire (n - 1) (rearm t tm (fire t tm (s\<lparr>timers := remove1 (t, tm) (timers s)\<rparr>))))"
  by (cases n) (auto split: option.splits)

lemma run_idle: "timers s = [] \<Longrightarrow> run fire n s = s"
  by (cases n) simp_all

lemma settle_settled: "promise s = Some p \<Longrightarrow> settle outcome s = s"
  by (simp add: settle_def)

lemma first_tick:
  assumes "0 < n"
    and "\<And>t s. fire t CheckPickerStatus s = on_checkPickerStatus closedAt t s"
  shows "run fire n picker_start =
           (if window_closed closedAt (1 * 1000)
            then run fire (n - 1)
                   \<lparr>timers = [(30000, HardTimeout), (1 * 1000 + 3000, FollowUp)],
                    interval_live = False, fetched = [], promise = None\<rparr>
            else run fire (n - 1)
                   \<lparr>timers = [(30000, HardTimeout), (2 * 1000, CheckPickerStatus)],
                    interval_live = True, fetched = [], promise = None\<rparr>)"
  using assms
  by (simp add: run_unfold [of n] picker_start_def on_checkPickerStatus_def rearm_def
      setTimeout_def clearInterval_def)

lemma poll_tick:
  assumes "k < 30" and "0 < n"
    and "\<And>t s. fire t CheckPickerStatus s = on_checkPickerStatus closedAt t s"
  shows "run fire n \<lparr>timers = [(30000, HardTimeout), (k * 1000, CheckPickerStatus)],
                     interval_live = True, fetched = [], promise = None\<rparr> =
           (if window_closed closedAt (k * 1000)
            then run fire (n - 1)
                   \<lparr>timers = [(30000, HardTimeout), (k * 1000 + 3000, FollowUp)],
                    interval_live = False, fetched = [], promise = None\<rparr>
            else run fire (n - 1)
                   \<lparr>timers = [(30000, HardTimeout), (Suc k * 1000, CheckPickerStatus)],
                    interval_live = True, fetched = [], promise = None\<rparr>)"
  using assms
  by (simp add: run_unfold [of n] on_checkPickerStatus_def rearm_def setTimeout_def
      clearInterval_def add.commute)

lemma web_after_close:
  assumes "k < 30" and "2 \<le> n"
  shows "run (web_fire closedAt) n
           \<lparr>timers = [(30000, HardTimeout), (k * 1000 + 3000, FollowUp)],
            interval_live = False, fetched = [], promise = None\<rparr>
         = \<lparr>timers = [], interval_live = False,
            fetched = (if k * 1000 + 3000 < 30000
                       then [(k * 1000 + 3000, ByFollowUp), (30000, ByHardTimeout)]
                       else [(30000, ByHardTimeout), (k * 1000 + 3000, ByFollowUp)]),
            promise = None\<rparr>"
proof -
  have n: "0 < n" "0 < n - Suc 0"
    using assms by simp_all
  show ?thesis
    by (simp add: run_unfold [OF n(1)] run_unfold [OF n(2)] run_idle web_fire_def rearm_def
        clearInterval_def)
qed

lemma web_timeout_only:
  assumes "0 < n"
  shows "run (web_fire closedAt) n
           \<lparr>timers = [(30000, HardTimeout), (30 * 1000, CheckPickerStatus)],
            interval_live = True, fetched = [], promise = None\<rparr>
         = \<lparr>timers = [], interval_live = False, fetched = [(30000, ByHardTimeout)],
            promise = None\<rparr>"
  using assms
  by (simp add: run_unfold [of n] run_idle web_fire_def rearm_def clearInterval_def)

lemma web_from_poll:
  assumes "k + d = 30" and "d + 2 \<le> n"
  shows "run (web_fire closedAt) n
           \<lparr>timers = [(30000, HardTimeout), (k * 1000, CheckPickerStatus)],
            interval_live = True, fetched = [], promise = None\<rparr>
         = \<lparr>timers = [], interval_live = False,
            fetched =
              (case find (\<lambda>j. window_closed closedAt (j * 1000)) [k..<30] of
                 None \<Rightarrow> [(30000, ByHardTimeout)]
               | Some j \<Rightarrow>
                   if j * 1000 + 3000 < 30000
                   then [(j * 1000 + 3000, ByFollowUp), (30000, ByHardTimeout)]
                   else [(30000, ByHardTimeout), (j * 1000 + 3000, ByFollowUp)]),
            promise = None\<rparr>"
  using assms
proof (induction d arbitrary: k n)
  case 0
  then have "k = 30" "0 < n" by simp_all
  then show ?case
    using web_timeout_only [of n closedAt] by simp
next
  case (Suc d)
  then have k: "k < 30" and n: "0 < n" and rest: "Suc k + d = 30" "d + 2 \<le> n - 1" "2 \<le> n - 1"
    by simp_all
  have tick: "\<And>t s. web_fire closedAt t CheckPickerStatus s = on_checkPickerStatus closedAt t s"
    by (simp add: web_fire_def)
  have upt: "[k..<30] = k # [Suc k..<30]"
    using k by (simp add: upt_conv_Cons)
  show ?case
  proof (cases "window_closed closedAt (k * 1000)")
    case True
    then show ?thesis
      using poll_tick [where fire = "web_fire closedAt" and closedAt = closedAt, OF k n tick]
        web_after_close [OF k rest(3), of closedAt]
      by (simp add: upt)
  next
    case False
    then show ?thesis
      using poll_tick [where fire = "web_fire closedAt" and closedAt = closedAt, OF k n tick]
        Suc.IH [OF rest(1,2)]
      by (simp add: upt)
  qed
qed

lemma service_after_close:
  assumes "k < 30" and "3 \<le> n"
  shows "run (service_fire closedAt duration result) n
           \<lparr>timers = [(30000, HardTimeout), (k * 1000 + 3000, FollowUp)],
            interval_live = False, fetched = [], promise = None\<rparr>
         = \<lparr>timers = [], interval_live = False,
            fetched = [(k * 1000 + 3000, ByFollowUp)],
            promise = Some (if k * 1000 + 3000 + duration < 30000
                            then fetch_outcome result else RejectedTimeout)\<rparr>"
proof -
  have n: "0 < n" "0 < n - Suc 0" "0 < n - Suc (Suc 0)"
    using assms by simp_all
  show ?thesis
    by (simp add: run_unfold [OF n(1)] run_unfold [OF n(2)] run_unfold [OF n(3)] run_idle
        service_fire_def settle_def rearm_def clearInterval_def setTimeout_def)
qed

lemma service_timeout_only:
  assumes "0 < n"
  shows "run (service_fire closedAt duration result) n
           \<lparr>timers = [(30000, HardTimeout), (30 * 1000, CheckPickerStatus)],
            interval_live = True, fetched = [], promise = None\<rparr>
         = \<lparr>timers = [], interval_live = False, fetched = [],
            promise = Some RejectedTimeout\<rparr>"
  using assms
  by (simp add: run_unfold [of n] run_idle service_fire_def settle_def rearm_def
      clearInterval_def)

lemma service_from_poll:
  assumes "k + d = 30" and "d + 3 \<le> n"
  shows "run (service_fire closedAt duration result) n
           \<lparr>timers = [(30000, HardTimeout), (k * 1000, CheckPickerStatus)],
            interval_live = True, fetched = [], promise = None\<rparr>
         = \<lparr>timers = [], interval_live = False,
            fetched =
              (case find (\<lambda>j. window_closed closedAt (j * 1000)) [k..<30] of
                 None \<Rightarrow> []
               | Some j \<Rightarrow> [(j * 1000 + 3000, ByFollowUp)]),
            promise =
              Some (case find (\<lambda>j. window_closed closedAt (j * 1000)) [k..<30] of
                      None \<Rightarrow> RejectedTimeout
                    | Some j \<Rightarrow>
                        if j * 1000 + 3000 + duration < 30000
                        then fetch_outcome result else RejectedTimeout)\<rparr>"
  using assms
proof (induction d arbitrary: k n)
  case 0
  then have "k = 30" "0 < n" by simp_all
  then show ?case
    using service_timeout_only [of n closedAt duration result] by simp
next
  case (Suc d)
  then have k: "k < 30" and n: "0 < n" and rest: "Suc k + d = 30" "d + 3 \<le> n - 1" "3 \<le> n - 1"
    by simp_all
  have tick: "\<And>t s. service_fire closedAt duration result t CheckPickerStatus s
                     = on_checkPickerStatus closedAt t s"
    by (simp add: service_fire_def)
  have upt: "[k..<30] = k # [Suc k..<30]"
    using k by (simp add: upt_conv_Cons)
  show ?case
  proof (cases "window_closed closedAt (k * 1000)")
    case True
    then show ?thesis
      using poll_tick [where fire = "service_fire closedAt duration result"
                        and closedAt = closedAt, OF k n tick]
        service_after_close [OF k rest(3), of closedAt duration result]
      by (simp add: upt)
  next
    case False
    then show ?thesis
      using poll_tick [where fire = "service_fire closedAt duration result"
                        and closedAt = closedAt, OF k n tick]
        Suc.IH [OF rest(1,2)]
      by (simp add: upt)
  qed
qed

lemma detecting_tick_unfold:
  "detecting_tick closedAt =
     (if window_closed closedAt (1 * 1000) then Some 1
      else find (\<lambda>j. window_closed closedAt (j * 1000)) [2..<30])"
proof -
  have "[1..<30] = 1 # [2..<30]"
    by (simp add: upt_conv_Cons)
  then show ?thesis
    by (simp add: detecting_tick_def)
qed

text \<open>
  C8 (amended). The window-closed poll and the 30-second timer are both armed. The poll is
  stopped by whichever acts first: by the first tick (at 1000, 2000, ... 29000 ms) that
  finds the window closed, which arms one fetch 3000 ms later, or by the 30-second timer.
  The 30-second timer itself is never cancelled, and a fetch armed by the closed-window
  path is not cancelled either. In src/AppSecure.js the timer fetches the selection media
  at 30000 ms in every run, so a window found closed gives two fetches. In
  app/(tabs)/index.tsx the timer makes no fetch and rejects the promise; the promise keeps
  its first settlement: the outcome of the closed-window fetch when that settled before
  30000 ms, the timeout otherwise. Every run ends with no timer armed, after at most 31
  (32) timers. The final state of every run is the one below.
\<close>

theorem picker_timeout_is_never_cancelled:
  "run (web_fire closedAt) 31 picker_start
     = \<lparr>timers = [], interval_live = False,
        fetched =
          (case detecting_tick closedAt of
             None \<Rightarrow> [(30000, ByHardTimeout)]
           | Some k \<Rightarrow>
               if k * 1000 + 3000 < 30000
               then [(k * 1000 + 3000, ByFollowUp), (30000, ByHardTimeout)]
               else [(30000, ByHardTimeout), (k * 1000 + 3000, ByFollowUp)]),
        promise = None\<rparr>
   \<and> run (service_fire closedAt duration result) 32 picker_start
     = \<lparr>timers = [], interval_live = False,
        fetched =
          (case detecting_tick closedAt of
             None \<Rightarrow> []
           | Some k \<Rightarrow> [(k * 1000 + 3000, ByFollowUp)]),
        promise =
          Some (case detecting_tick closedAt of
                  None \<Rightarrow> RejectedTimeout
                | Some k \<Rightarrow>
                    if k * 1000 + 3000 + duration < 30000
                    then fetch_outcome result else RejectedTimeout)\<rparr>"
proof
  have tick: "\<And>t s. web_fire closedAt t CheckPickerStatus s = on_checkPickerStatus closedAt t s"
    by (simp add: web_fire_def)
  have one: "(1::nat) < 30" and fuel: "(2::nat) \<le> 31 - 1" "(2::nat) + 28 = 30" "(28::nat) + 2 \<le> 31 - 1"
    by simp_all
  show "run (web_fire closedAt) 31 picker_start
     = \<lparr>timers = [], interval_live = False,
        fetched =
          (case detecting_tick closedAt of
             None \<Rightarrow> [(30000, ByHardTimeout)]
           | Some k \<Rightarrow>
               if k * 1000 + 3000 < 30000
               then [(k * 1000 + 3000, ByFollowUp), (30000, ByHardTimeout)]
               else [(30000, ByHardTimeout), (k * 1000 + 3000, ByFollowUp)]),
        promise = None\<rparr>"
    using first_tick [where fire = "web_fire closedAt" and closedAt = closedAt and n = 31, OF _ tick]
      web_after_close [OF one fuel(1), of closedAt]
      web_from_poll [OF fuel(2,3), of closedAt]
    by (simp add: detecting_tick_unfold)
next
  have tick: "\<And>t s. service_fire closedAt duration result t CheckPickerStatus s
                     = on_checkPickerStatus closedAt t s"
    by (simp add: service_fire_def)
  have one: "(1::nat) < 30" and fuel: "(3::nat) \<le> 32 - 1" "(2::nat) + 28 = 30" "(28::nat) + 3 \<le> 32 - 1"
    by simp_all
  show "run (service_fire closedAt duration result) 32 picker_start
     = \<lparr>timers = [], interval_live = False,
        fetched =
          (case detecting_tick closedAt of
             None \<Rightarrow> []
           | Some k \<Rightarrow> [(k * 1000 + 3000, ByFollowUp)]),
        promise =
          Some (case detecting_tick closedAt of
                  None \<Rightarrow> RejectedTimeout
                | Some k \<Rightarrow>
                    if k * 1000 + 3000 + duration < 30000
                    then fetch_outcome result else RejectedTimeout)\<rparr>"
    using first_tick [where fire = "service_fire closedAt duration result"
                       and closedAt = closedAt and n = 32, OF _ tick]
      service_after_close [OF one fuel(1), of closedAt duration result]
      service_from_poll [OF fuel(2,3), of closedAt duration result]
    by (simp add: detecting_tick_unfold)
qed

theorem picker_timeout_is_never_cancelled_witness:
  "fetched (run (web_fire (Some 500)) 31 picker_start)
     = [(4000, ByFollowUp), (30000, ByHardTimeout)]
   \<and> run (service_fire (Some 500) 100 (Inr [])) 32 picker_start
     = \<lparr>timers = [], interval_live = False, fetched = [(4000, ByFollowUp)],
        promise = Some (Resolved [])\<rparr>
   \<and> run (service_fire (Some 28500) 100 (Inr [])) 32 picker_start
     = \<lparr>timers = [], interval_live = False, fetched = [(32000, ByFollowUp)],
        promise = Some RejectedTimeout\<rparr>"
proof -
  have early: "detecting_tick (Some 500) = Some 1"
    by (simp add: detecting_tick_unfold window_closed_def)
  have late: "detecting_tick (Some 28500) = Some 29"
    by (simp add: detecting_tick_def window_closed_def upt_rec)
  from picker_timeout_is_never_cancelled [of "Some 500" 100 "Inr []"]
    picker_timeout_is_never_cancelled [of "Some 28500" 100 "Inr []"] early late
  show ?thesis by (simp add: fetch_outcome_def)
qed

text \<open>
  C8, as stated, fails in src/AppSecure.js. The window is closed after 500 ms; the tick at
  1000 ms finds it closed and the media items are fetched at 4000 ms. The 30-second timer
  was not cancelled and fetches the media items again at 30000 ms. After these three timers
  none is armed.
\<close>

theorem second_fetch_after_closed_window_counterexample:
  "fetched (run (web_fire (Some 500)) 3 picker_start)
     = [(4000, ByFollowUp), (30000, ByHardTimeout)]
   \<and> idle (run (web_fire (Some 500)) 3 picker_start)"
  by (simp add: run_unfold idle_def picker_start_def web_fire_def rearm_def setTimeout_def
      clearInterval_def on_checkPickerStatus_def window_closed_def)

end
